theory Spec2Isabelle
  imports Main
begin

section \<open>JavaScript primitives used by the chat backend\<close>

text \<open>
  A JavaScript \<^verbatim>\<open>Map\<close> keeps its entries in insertion order; \<^verbatim>\<open>set\<close> on a key that is
  present replaces the value where it stands, \<^verbatim>\<open>set\<close> on a new key appends. It is modelled
  as an association list, so that \<^verbatim>\<open>Array.from(m.values())\<close> has the order the program
  sees. No function of the program mutates an object it has stored or handed out (every
  update builds a fresh object with a spread), so objects are modelled as values.
\<close>

type_synonym ('k, 'v) js_map = "('k \<times> 'v) list"

definition map_get :: "('k, 'v) js_map \<Rightarrow> 'k \<Rightarrow> 'v option" where
  "map_get m k = map_of m k"

fun map_set :: "('k, 'v) js_map \<Rightarrow> 'k \<Rightarrow> 'v \<Rightarrow> ('k, 'v) js_map" where
  "map_set [] k v = [(k, v)]"
| "map_set ((k', v') # m) k v = (if k' = k then (k, v) # m else (k', v') # map_set m k v)"

definition map_delete :: "('k, 'v) js_map \<Rightarrow> 'k \<Rightarrow> ('k, 'v) js_map" where
  "map_delete m k = filter (\<lambda>e. fst e \<noteq> k) m"

definition map_values :: "('k, 'v) js_map \<Rightarrow> 'v list" where
  "map_values m = map snd m"

text \<open>
  \<^verbatim>\<open>Array.prototype.slice(start)\<close> with an integer \<^verbatim>\<open>start\<close>: a negative start counts
  from the end and is clamped at the first element, a non-negative one is clamped at the
  length. \<^verbatim>\<open>-0\<close> is \<^verbatim>\<open>0\<close>, which is not negative.
\<close>

definition slice :: "'a list \<Rightarrow> int \<Rightarrow> 'a list" where
  "slice xs start =
     (let len = int (length xs);
          k = (if start < 0 then max (len + start) 0 else min start len)
      in drop (nat k) xs)"

text \<open>
  \<^verbatim>\<open>String.prototype.trim\<close> removes white space and line terminators from both ends.
  A \<^typ>\<open>char\<close> stands for a code unit in the range U+0000 to U+00FF; the white space of
  that range is TAB, LF, VT, FF, CR, SPACE and NO-BREAK SPACE.
\<close>

definition is_ws :: "char \<Rightarrow> bool" where
  "is_ws c = (of_char c \<in> {9, 10, 11, 12, 13, 32, 160 :: nat})"

definition trim :: "string \<Rightarrow> string" where
  "trim s = rev (dropWhile is_ws (rev (dropWhile is_ws s)))"

section \<open>Data model\<close>

text \<open>
  The interfaces \<^verbatim>\<open>User\<close>, \<^verbatim>\<open>Message\<close> and \<^verbatim>\<open>Room\<close> of \<^verbatim>\<open>src/types\<close>, with the fields the
  store reads and writes. A \<^verbatim>\<open>Date\<close> is its number of milliseconds since the epoch.
  Field names shared by several interfaces carry the interface as a suffix.
\<close>

record user =
  id_user :: string
  username :: string
  avatar :: string
  isOnline :: bool
  lastSeen :: int
  createdAt_user :: int

datatype msg_type = Text | File | Image

record message =
  id_msg :: string
  content :: string
  type_msg :: msg_type
  userId :: string
  user_msg :: user
  fileUrl :: "string option"
  fileName :: "string option"
  fileSize :: "int option"
  fileMimeType :: "string option"
  createdAt_msg :: int

record room =
  id_room :: string
  name_room :: string
  description :: "string option"
  isPrivate :: bool
  createdAt_room :: int

text \<open>\<^verbatim>\<open>Partial<User>\<close>: every field may be given or left out.\<close>

record user_updates =
  upd_id :: "string option"
  upd_username :: "string option"
  upd_avatar :: "string option"
  upd_isOnline :: "bool option"
  upd_lastSeen :: "int option"
  upd_createdAt :: "int option"

definition no_updates :: user_updates where
  "no_updates = \<lparr>upd_id = None, upd_username = None, upd_avatar = None,
                  upd_isOnline = None, upd_lastSeen = None, upd_createdAt = None\<rparr>"

text \<open>The spread \<^verbatim>\<open>{ ...user, ...updates }\<close>: a field of \<^verbatim>\<open>updates\<close> wins where given.\<close>

definition spread_user :: "user \<Rightarrow> user_updates \<Rightarrow> user" where
  "spread_user u upd =
     \<lparr>id_user = (case upd_id upd of None \<Rightarrow> id_user u | Some v \<Rightarrow> v),
      username = (case upd_username upd of None \<Rightarrow> username u | Some v \<Rightarrow> v),
      avatar = (case upd_avatar upd of None \<Rightarrow> avatar u | Some v \<Rightarrow> v),
      isOnline = (case upd_isOnline upd of None \<Rightarrow> isOnline u | Some v \<Rightarrow> v),
      lastSeen = (case upd_lastSeen upd of None \<Rightarrow> lastSeen u | Some v \<Rightarrow> v),
      createdAt_user = (case upd_createdAt upd of None \<Rightarrow> createdAt_user u | Some v \<Rightarrow> v)\<rparr>"

section \<open>The durable store (DataStore)\<close>

text \<open>
  The three files under \<^verbatim>\<open>data/\<close>, each holding the last snapshot written to it, and the
  in-memory collections of the \<^verbatim>\<open>DataStore\<close> object.
\<close>

record disk =
  usersFile :: "user list"
  messagesFile :: "message list"
  roomsFile :: "room list"

record data_store =
  users :: "(string, user) js_map"
  messages :: "message list"
  rooms :: "(string, room) js_map"
  files :: disk

text \<open>
  What a call reads from its environment: the identifier \<^verbatim>\<open>uuid.v4()\<close> returns, the
  clock (\<^verbatim>\<open>createUser\<close> reads it twice, for \<^verbatim>\<open>lastSeen\<close> and then for \<^verbatim>\<open>createdAt\<close>), and
  how far \<^verbatim>\<open>saveData\<close> gets before a write throws.
\<close>

datatype io_outcome = WriteOk | FailUsers | FailMessages | FailRooms

record env =
  uuid :: string
  now :: int
  now_again :: int
  io :: io_outcome

text \<open>
  \<^verbatim>\<open>saveData\<close> writes the users, then the last 1000 messages, then the rooms; an
  exception of a write is caught and logged, and the later files keep their old content.
\<close>

definition saveData :: "io_outcome \<Rightarrow> data_store \<Rightarrow> data_store" where
  "saveData outcome s =
     (let d = files s;
          d1 = d\<lparr>usersFile := map_values (users s)\<rparr>;
          d2 = d1\<lparr>messagesFile := slice (messages s) (- 1000)\<rparr>;
          d3 = d2\<lparr>roomsFile := map_values (rooms s)\<rparr>
      in s\<lparr>files := (case outcome of
                        FailUsers \<Rightarrow> d
                      | FailMessages \<Rightarrow> d1
                      | FailRooms \<Rightarrow> d2
                      | WriteOk \<Rightarrow> d3)\<rparr>)"

definition findUserByUsername :: "data_store \<Rightarrow> string \<Rightarrow> user option" where
  "findUserByUsername s name = List.find (\<lambda>u. username u = name) (map_values (users s))"

definition findUserById :: "data_store \<Rightarrow> string \<Rightarrow> user option" where
  "findUserById s i = map_get (users s) i"

record user_data =
  ud_username :: string
  ud_avatar :: string

definition createUser :: "env \<Rightarrow> user_data \<Rightarrow> data_store \<Rightarrow> user \<times> data_store" where
  "createUser e userData s =
     (let u = \<lparr>id_user = uuid e, username = ud_username userData, avatar = ud_avatar userData,
               isOnline = True, lastSeen = now e, createdAt_user = now_again e\<rparr>;
          s1 = s\<lparr>users := map_set (users s) (id_user u) u\<rparr>
      in (u, saveData (io e) s1))"

definition updateUser :: "env \<Rightarrow> string \<Rightarrow> user_updates \<Rightarrow> data_store \<Rightarrow> user option \<times> data_store" where
  "updateUser e i updates s =
     (case map_get (users s) i of
        None \<Rightarrow> (None, s)
      | Some u \<Rightarrow>
          (let updatedUser = spread_user u updates;
               s1 = s\<lparr>users := map_set (users s) i updatedUser\<rparr>
           in (Some updatedUser, saveData (io e) s1)))"

text \<open>
  \<^verbatim>\<open>getRecentMessages(limit = 50)\<close>: \<open>None\<close> is the call without an argument; the limit
  is an integer, as every caller passes one (50, 100, 1000).
\<close>

definition getRecentMessages :: "data_store \<Rightarrow> int option \<Rightarrow> message list" where
  "getRecentMessages s limit =
     slice (messages s) (- (case limit of None \<Rightarrow> 50 | Some l \<Rightarrow> l))"

record message_data =
  md_content :: string
  md_type :: msg_type
  md_userId :: string
  md_fileUrl :: "string option"
  md_fileName :: "string option"
  md_fileSize :: "int option"
  md_fileMimeType :: "string option"

text \<open>
  The object literal both versions of \<^verbatim>\<open>createMessage\<close> build, and the common tail:
  push, keep the last 1000 in memory, save.
\<close>

definition new_message :: "env \<Rightarrow> message_data \<Rightarrow> string \<Rightarrow> user \<Rightarrow> message" where
  "new_message e messageData c u =
     \<lparr>id_msg = uuid e, content = c, type_msg = md_type messageData,
      userId = md_userId messageData, user_msg = u,
      fileUrl = md_fileUrl messageData, fileName = md_fileName messageData,
      fileSize = md_fileSize messageData, fileMimeType = md_fileMimeType messageData,
      createdAt_msg = now e\<rparr>"

definition push_message :: "env \<Rightarrow> message \<Rightarrow> data_store \<Rightarrow> data_store" where
  "push_message e m s =
     (let pushed = messages s @ [m];
          kept = (if length pushed > 1000 then slice pushed (- 1000) else pushed)
      in saveData (io e) (s\<lparr>messages := kept\<rparr>))"

text \<open>\<^verbatim>\<open>createMessage\<close> of \<^verbatim>\<open>dist/storage/DataStore.js\<close>.\<close>

definition createMessage :: "env \<Rightarrow> message_data \<Rightarrow> data_store \<Rightarrow> message option \<times> data_store" where
  "createMessage e messageData s =
     (case map_get (users s) (md_userId messageData) of
        None \<Rightarrow> (None, s)
      | Some u \<Rightarrow>
          (let m = new_message e messageData (md_content messageData) u
           in (Some m, push_message e m s)))"

text \<open>
  \<^verbatim>\<open>createMessage\<close> of \<^verbatim>\<open>src/storage/DataStore.ts\<close>. On a value of the declared type,
  \<^verbatim>\<open>!content\<close> and \<^verbatim>\<open>!userId\<close> hold of the empty string only, the \<^verbatim>\<open>typeof\<close> test passes,
  and \<^verbatim>\<open>type || 'text'\<close> is the type.
\<close>

definition createMessage_ts :: "env \<Rightarrow> message_data \<Rightarrow> data_store \<Rightarrow> message option \<times> data_store" where
  "createMessage_ts e messageData s =
     (if md_content messageData = [] then (None, s)
      else if md_userId messageData = [] then (None, s)
      else case map_get (users s) (md_userId messageData) of
        None \<Rightarrow> (None, s)
      | Some u \<Rightarrow>
          (let m = new_message e messageData (trim (md_content messageData)) u
           in (Some m, push_message e m s)))"

record room_data =
  rd_name :: string
  rd_description :: "string option"
  rd_isPrivate :: "bool option"

definition createRoom :: "env \<Rightarrow> room_data \<Rightarrow> data_store \<Rightarrow> room \<times> data_store" where
  "createRoom e roomData s =
     (let r = \<lparr>id_room = uuid e, name_room = rd_name roomData,
               description = rd_description roomData,
               isPrivate = (case rd_isPrivate roomData of None \<Rightarrow> False | Some b \<Rightarrow> b),
               createdAt_room = now e\<rparr>;
          s1 = s\<lparr>rooms := map_set (rooms s) (id_room r) r\<rparr>
      in (r, saveData (io e) s1))"

definition getAllRooms :: "data_store \<Rightarrow> room list" where
  "getAllRooms s = map_values (rooms s)"

definition oneWeek :: int where
  "oneWeek = 7 * 24 * 60 * 60 * 1000"

definition cleanup :: "env \<Rightarrow> data_store \<Rightarrow> data_store" where
  "cleanup e s =
     (let oneWeekAgo = now e - oneWeek
      in saveData (io e) (s\<lparr>messages := filter (\<lambda>msg. createdAt_msg msg > oneWeekAgo) (messages s)\<rparr>))"

section \<open>The server: registry of sessions, room and emitted events\<close>

text \<open>
  An entry of \<^verbatim>\<open>connectedUsers\<close> is \<^verbatim>\<open>{ ...user, socketId }\<close>. When \<^verbatim>\<open>user\<close> is \<^verbatim>\<open>null\<close>
  the spread adds no field, and the entry holds the socket id only: \<open>su_user\<close> is \<open>None\<close>.
\<close>

record socket_user =
  su_user :: "user option"
  socketId :: string

record file_info =
  filename :: string
  originalname :: string
  size_file :: int
  mimetype :: string
  url :: string

text \<open>
  Whom an emit addresses: \<^verbatim>\<open>socket.emit\<close> the socket itself, \<^verbatim>\<open>socket.to('general').emit\<close>
  the room but the socket, \<^verbatim>\<open>io.to('general').emit\<close> the room, \<^verbatim>\<open>io.emit\<close> every connection.
\<close>

datatype audience = ToSocket string | ToRoomExcept string | ToRoom | ToAll

datatype payload =
    RecentMessages "message list"
  | OnlineUsers "socket_user list"
  | JoinSuccess socket_user "socket_user list" "message list"
  | UserJoined socket_user "socket_user list"
  | NewMessage message
  | UserTyping socket_user bool
  | UserLeft socket_user "socket_user list"
  | Error string

type_synonym emission = "audience \<times> payload"

fun event_name :: "payload \<Rightarrow> string" where
  "event_name (RecentMessages _) = ''recentMessages''"
| "event_name (OnlineUsers _) = ''onlineUsers''"
| "event_name (JoinSuccess _ _ _) = ''joinSuccess''"
| "event_name (UserJoined _ _) = ''userJoined''"
| "event_name (NewMessage _) = ''newMessage''"
| "event_name (UserTyping _ _) = ''userTyping''"
| "event_name (UserLeft _ _) = ''userLeft''"
| "event_name (Error _) = ''error''"

text \<open>
  The state the handlers share: the store, the map \<^verbatim>\<open>connectedUsers\<close>, the members of the
  room \<^verbatim>\<open>'general'\<close>, and every emit so far, oldest first.
\<close>

record server =
  store :: data_store
  connectedUsers :: "(string, socket_user) js_map"
  general :: "string list"
  outbox :: "emission list"

definition emit :: "server \<Rightarrow> emission list \<Rightarrow> server" where
  "emit sv ems = sv\<lparr>outbox := outbox sv @ ems\<rparr>"

definition socket_join :: "string list \<Rightarrow> string \<Rightarrow> string list" where
  "socket_join room sid = (if sid \<in> set room then room else room @ [sid])"

text \<open>Which live connection an emit reaches, and what a connection is sent, in order.\<close>

fun receives :: "string list \<Rightarrow> string \<Rightarrow> audience \<Rightarrow> bool" where
  "receives room c (ToSocket sid) = (c = sid)"
| "receives room c (ToRoomExcept sid) = (c \<in> set room \<and> c \<noteq> sid)"
| "receives room c ToRoom = (c \<in> set room)"
| "receives room c ToAll = True"

definition delivered :: "string list \<Rightarrow> string \<Rightarrow> emission list \<Rightarrow> payload list" where
  "delivered room c ems = map snd (filter (\<lambda>em. receives room c (fst em)) ems)"

definition sent_by :: "server \<Rightarrow> server \<Rightarrow> emission list" where
  "sent_by before after = drop (length (outbox before)) (outbox after)"

subsection \<open>The handlers of \<^verbatim>\<open>dist/server.js\<close>\<close>

text \<open>
  The first step of every \<^verbatim>\<open>join\<close> handler: look the username up, create the user or
  update it. \<^verbatim>\<open>updateUser\<close> may answer \<^verbatim>\<open>null\<close>.
\<close>

definition resolve_user :: "env \<Rightarrow> user_data \<Rightarrow> data_store \<Rightarrow> user option \<times> data_store" where
  "resolve_user e userData st =
     (case findUserByUsername st (ud_username userData) of
        None \<Rightarrow> (let (u, st1) = createUser e userData st in (Some u, st1))
      | Some found \<Rightarrow>
          updateUser e (id_user found)
            (no_updates\<lparr>upd_isOnline := Some True, upd_avatar := Some (ud_avatar userData),
                         upd_lastSeen := Some (now e)\<rparr>) st)"

text \<open>
  \<^verbatim>\<open>join\<close>. With \<^verbatim>\<open>user\<close> being \<^verbatim>\<open>null\<close> the first log line that reads \<^verbatim>\<open>user.username\<close>
  throws, after the registry and the room were written and before any emit; the handler
  catches and emits \<^verbatim>\<open>error\<close>.
\<close>

definition join :: "env \<Rightarrow> string \<Rightarrow> user_data \<Rightarrow> server \<Rightarrow> server" where
  "join e sid userData sv =
     (let (user, st1) = resolve_user e userData (store sv);
          socketUser = \<lparr>su_user = user, socketId = sid\<rparr>;
          registry = map_set (connectedUsers sv) sid socketUser;
          sv1 = sv\<lparr>store := st1, connectedUsers := registry,
                   general := socket_join (general sv) sid\<rparr>;
          recentMessages = getRecentMessages st1 (Some 50);
          currentOnlineUsers = map_values registry
      in case user of
           None \<Rightarrow> emit sv1 [(ToSocket sid, Error ''Error al unirse al chat'')]
         | Some _ \<Rightarrow>
             emit sv1
               [(ToSocket sid, RecentMessages recentMessages),
                (ToSocket sid, OnlineUsers currentOnlineUsers),
                (ToSocket sid, JoinSuccess socketUser currentOnlineUsers recentMessages),
                (ToRoomExcept sid, UserJoined socketUser currentOnlineUsers)])"

record send_data =
  sd_content :: string
  sd_type :: msg_type
  sd_file :: "file_info option"

definition message_spec :: "string \<Rightarrow> msg_type \<Rightarrow> string \<Rightarrow> file_info option \<Rightarrow> message_data" where
  "message_spec c t uid f =
     \<lparr>md_content = c, md_type = t, md_userId = uid,
      md_fileUrl = map_option url f, md_fileName = map_option originalname f,
      md_fileSize = map_option size_file f, md_fileMimeType = map_option mimetype f\<rparr>"

text \<open>
  \<^verbatim>\<open>sendMessage\<close>. A session without user fields has no \<^verbatim>\<open>id\<close>: \<^verbatim>\<open>createMessage\<close> looks
  \<^verbatim>\<open>undefined\<close> up, finds no user and answers \<^verbatim>\<open>null\<close>, so nothing happens.
\<close>

definition sendMessage :: "env \<Rightarrow> string \<Rightarrow> send_data \<Rightarrow> server \<Rightarrow> server" where
  "sendMessage e sid messageData sv =
     (case map_get (connectedUsers sv) sid of
        None \<Rightarrow> sv
      | Some user \<Rightarrow>
          (case su_user user of
             None \<Rightarrow> sv
           | Some u \<Rightarrow>
               (let (message, st1) =
                      createMessage e
                        (message_spec (sd_content messageData) (sd_type messageData)
                           (id_user u) (sd_file messageData)) (store sv);
                    sv1 = sv\<lparr>store := st1\<rparr>
                in case message of
                     None \<Rightarrow> sv1
                   | Some m \<Rightarrow> emit sv1 [(ToRoom, NewMessage m)])))"

definition typing :: "string \<Rightarrow> bool \<Rightarrow> server \<Rightarrow> server" where
  "typing sid isTyping sv =
     (case map_get (connectedUsers sv) sid of
        None \<Rightarrow> sv
      | Some user \<Rightarrow> emit sv [(ToRoomExcept sid, UserTyping user isTyping)])"

text \<open>
  \<^verbatim>\<open>disconnect\<close>. For a session without user fields \<^verbatim>\<open>updateUser(undefined, ...)\<close> finds
  nothing and leaves the store as it is.
\<close>

definition offline_updates :: "env \<Rightarrow> user_updates" where
  "offline_updates e = no_updates\<lparr>upd_isOnline := Some False, upd_lastSeen := Some (now e)\<rparr>"

definition disconnect :: "env \<Rightarrow> string \<Rightarrow> server \<Rightarrow> server" where
  "disconnect e sid sv =
     (case map_get (connectedUsers sv) sid of
        None \<Rightarrow> sv
      | Some user \<Rightarrow>
          (let st1 = (case su_user user of
                        None \<Rightarrow> store sv
                      | Some u \<Rightarrow> snd (updateUser e (id_user u) (offline_updates e) (store sv)));
               registry = map_delete (connectedUsers sv) sid;
               onlineUsers = map_values registry
           in emit (sv\<lparr>store := st1, connectedUsers := registry\<rparr>)
                [(ToAll, UserLeft user onlineUsers)]))"

subsection \<open>The handlers of the other versions of \<^verbatim>\<open>src/server.ts\<close>\<close>

text \<open>
  \<^verbatim>\<open>join\<close> of the version that notifies everybody: \<^verbatim>\<open>io.emit('userJoined')\<close> first, then
  \<^verbatim>\<open>recentMessages\<close> to the socket; the log line reading \<^verbatim>\<open>user.username\<close> comes last.
\<close>

definition join_v2 :: "env \<Rightarrow> string \<Rightarrow> user_data \<Rightarrow> server \<Rightarrow> server" where
  "join_v2 e sid userData sv =
     (let (user, st1) = resolve_user e userData (store sv);
          socketUser = \<lparr>su_user = user, socketId = sid\<rparr>;
          registry = map_set (connectedUsers sv) sid socketUser;
          sv1 = sv\<lparr>store := st1, connectedUsers := registry,
                   general := socket_join (general sv) sid\<rparr>;
          onlineUsers = map_values registry;
          recentMessages = getRecentMessages st1 (Some 50)
      in emit sv1
           ([(ToAll, UserJoined socketUser onlineUsers),
             (ToSocket sid, RecentMessages recentMessages)] @
            (case user of
               None \<Rightarrow> [(ToSocket sid, Error ''Error al unirse al chat'')]
             | Some _ \<Rightarrow> [])))"

text \<open>
  \<^verbatim>\<open>sendMessage\<close> of the version that normalises its payload (\<^verbatim>\<open>messageData: any\<close>): the
  payload carries \<^verbatim>\<open>text\<close> or \<^verbatim>\<open>content\<close>, each a string when present, and the empty
  string is falsy. Normalisation and validation come before the session is looked up,
  and before the \<^verbatim>\<open>try\<close>: with no payload at all (\<^verbatim>\<open>undefined\<close>, here \<open>None\<close>) reading
  \<^verbatim>\<open>messageData.text\<close> throws a \<^verbatim>\<open>TypeError\<close> that nothing catches, and nothing has been
  done by then. The last letter but one of the second error message is U+00ED.
\<close>

datatype handler_error = TypeError

definition empty_content_error :: string where
  "empty_content_error = ''Contenido del mensaje no puede estar vac'' @ [CHR 0xED] @ ''o''"

record raw_message =
  rm_text :: "string option"
  rm_content :: "string option"
  rm_type :: "msg_type option"
  rm_file :: "file_info option"

definition truthy :: "string option \<Rightarrow> bool" where
  "truthy v = (case v of None \<Rightarrow> False | Some s \<Rightarrow> s \<noteq> [])"

definition normalizeData :: "raw_message \<Rightarrow> send_data option" where
  "normalizeData messageData =
     (let t = (case rm_type messageData of None \<Rightarrow> Text | Some t \<Rightarrow> t)
      in if truthy (rm_text messageData)
         then Some \<lparr>sd_content = (case rm_text messageData of None \<Rightarrow> [] | Some s \<Rightarrow> s),
                    sd_type = t, sd_file = rm_file messageData\<rparr>
         else if truthy (rm_content messageData)
         then Some \<lparr>sd_content = (case rm_content messageData of None \<Rightarrow> [] | Some s \<Rightarrow> s),
                    sd_type = t, sd_file = rm_file messageData\<rparr>
         else None)"

definition sendMessage_v1 ::
  "env \<Rightarrow> string \<Rightarrow> raw_message option \<Rightarrow> server \<Rightarrow> handler_error + server" where
  "sendMessage_v1 e sid payload sv =
     (case payload of
        None \<Rightarrow> Inl TypeError
      | Some messageData \<Rightarrow>
          Inr (case normalizeData messageData of
                 None \<Rightarrow> emit sv [(ToSocket sid, Error ''Contenido del mensaje es requerido'')]
               | Some normalizedData \<Rightarrow>
                   if sd_content normalizedData = [] \<or> trim (sd_content normalizedData) = []
                   then emit sv [(ToSocket sid, Error empty_content_error)]
                   else
                     (case map_get (connectedUsers sv) sid of
                        None \<Rightarrow> sv
                      | Some user \<Rightarrow>
                          (case su_user user of
                             None \<Rightarrow> sv
                           | Some u \<Rightarrow>
                               (let (message, st1) =
                                      createMessage_ts e
                                        (message_spec (sd_content normalizedData)
                                           (sd_type normalizedData) (id_user u)
                                           (sd_file normalizedData)) (store sv);
                                    sv1 = sv\<lparr>store := st1\<rparr>
                                in case message of
                                     None \<Rightarrow> sv1
                                   | Some m \<Rightarrow> emit sv1 [(ToRoom, NewMessage m)])))))"

subsection \<open>Runs of the server\<close>

text \<open>
  The events the process of \<^verbatim>\<open>dist/server.js\<close> handles, one at a time: the four socket
  events and the hourly timer. Socket.IO takes a closing socket out of its rooms before
  the \<^verbatim>\<open>disconnect\<close> handler runs.
\<close>

datatype event =
    Join string user_data
  | SendMessage string send_data
  | Typing string bool
  | Disconnect string
  | Cleanup

fun step :: "env \<Rightarrow> event \<Rightarrow> server \<Rightarrow> server" where
  "step e (Join sid userData) sv = join e sid userData sv"
| "step e (SendMessage sid messageData) sv = sendMessage e sid messageData sv"
| "step e (Typing sid isTyping) sv = typing sid isTyping sv"
| "step e (Disconnect sid) sv = disconnect e sid (sv\<lparr>general := removeAll sid (general sv)\<rparr>)"
| "step e Cleanup sv = sv\<lparr>store := cleanup e (store sv)\<rparr>"

fun run :: "(env \<times> event) list \<Rightarrow> server \<Rightarrow> server" where
  "run [] sv = sv"
| "run ((e, ev) # tr) sv = run tr (step e ev sv)"

text \<open>
  \<^verbatim>\<open>uuid.v4()\<close> answers an identifier no user has yet: along a run, whenever a \<^verbatim>\<open>join\<close>
  creates a user, the identifier drawn is not a key of the users map.
\<close>

fun fresh_ids :: "(env \<times> event) list \<Rightarrow> server \<Rightarrow> bool" where
  "fresh_ids [] sv = True"
| "fresh_ids ((e, ev) # tr) sv =
     ((case ev of
         Join sid userData \<Rightarrow>
           findUserByUsername (store sv) (ud_username userData) = None \<longrightarrow>
           map_get (users (store sv)) (uuid e) = None
       | _ \<Rightarrow> True) \<and>
      fresh_ids tr (step e ev sv))"

text \<open>
  The users map as the store builds it: no key twice (a \<^verbatim>\<open>Map\<close> has none), and every
  user under its own \<^verbatim>\<open>id\<close> (\<^verbatim>\<open>loadData\<close> and \<^verbatim>\<open>createUser\<close> store it so).
\<close>

definition users_wf :: "data_store \<Rightarrow> bool" where
  "users_wf s = (distinct (map fst (users s)) \<and> list_all (\<lambda>(k, u). id_user u = k) (users s))"

text \<open>
  What the lookups of the users map depend on: key, \<^verbatim>\<open>id\<close> and \<^verbatim>\<open>username\<close> of every entry,
  and the \<^verbatim>\<open>id\<close> of the first entry with a given username.
\<close>

definition idents :: "(string, user) js_map \<Rightarrow> (string \<times> string \<times> string) list" where
  "idents m = map (\<lambda>(k, u). (k, id_user u, username u)) m"

definition owner :: "(string \<times> string \<times> string) list \<Rightarrow> string \<Rightarrow> string option" where
  "owner ids name = map_option (\<lambda>t. fst (snd t)) (List.find (\<lambda>t. snd (snd t) = name) ids)"

text \<open>Several \<^verbatim>\<open>createMessage\<close> calls in a row, with the answer of each.\<close>

fun createMessages :: "(env \<times> message_data) list \<Rightarrow> data_store \<Rightarrow> message option list \<times> data_store" where
  "createMessages [] s = ([], s)"
| "createMessages ((e, messageData) # reqs) s =
     (let (r, s1) = createMessage e messageData s;
          (rs, s2) = createMessages reqs s1
      in (r # rs, s2))"

text \<open>Several \<^verbatim>\<open>updateUser\<close> calls in a row.\<close>

fun updateUsers :: "(env \<times> string \<times> user_updates) list \<Rightarrow> data_store \<Rightarrow> data_store" where
  "updateUsers [] s = s"
| "updateUsers ((e, i, updates) # calls) s = updateUsers calls (snd (updateUser e i updates s))"

text \<open>The cap on the history, in memory and in the messages file.\<close>

definition capped :: "data_store \<Rightarrow> bool" where
  "capped s = (length (messages s) \<le> 1000 \<and> length (messagesFile (files s)) \<le> 1000)"

section \<open>Concrete inputs\<close>

definition alice :: user where
  "alice = \<lparr>id_user = ''u1'', username = ''alice'', avatar = ''a.png'',
            isOnline = True, lastSeen = 1000, createdAt_user = 1000\<rparr>"

definition bob :: user where
  "bob = \<lparr>id_user = ''u2'', username = ''bob'', avatar = ''b.png'',
          isOnline = True, lastSeen = 1500, createdAt_user = 1500\<rparr>"

definition empty_disk :: disk where
  "empty_disk = \<lparr>usersFile = [], messagesFile = [], roomsFile = []\<rparr>"

definition store1 :: data_store where
  "store1 = \<lparr>users = [(''u1'', alice), (''u2'', bob)], messages = [], rooms = [],
             files = empty_disk\<rparr>"

definition env1 :: env where
  "env1 = \<lparr>uuid = ''m1'', now = 2000, now_again = 2000, io = WriteOk\<rparr>"

definition env2 :: env where
  "env2 = \<lparr>uuid = ''m2'', now = 3000, now_again = 3001, io = WriteOk\<rparr>"

definition hello :: message_data where
  "hello = \<lparr>md_content = ''hi'', md_type = Text, md_userId = ''u1'', md_fileUrl = None,
            md_fileName = None, md_fileSize = None, md_fileMimeType = None\<rparr>"

definition blank :: message_data where
  "blank = \<lparr>md_content = ''   '', md_type = Text, md_userId = ''u1'', md_fileUrl = None,
            md_fileName = None, md_fileSize = None, md_fileMimeType = None\<rparr>"

definition msgA :: message where
  "msgA = new_message env1 hello ''hi'' alice"

definition msgB :: message where
  "msgB = new_message env2 hello ''hi'' alice"

definition store2 :: data_store where
  "store2 = store1\<lparr>messages := [msgA, msgB]\<rparr>"

definition server1 :: server where
  "server1 = \<lparr>store = store1,
              connectedUsers = [(''sB'', \<lparr>su_user = Some bob, socketId = ''sB''\<rparr>)],
              general = [''sB''], outbox = []\<rparr>"

definition padded :: message_data where
  "padded = hello\<lparr>md_content := '' hi ''\<rparr>"

definition env3 :: env where
  "env3 = \<lparr>uuid = ''m3'', now = 604802500, now_again = 604802500, io = WriteOk\<rparr>"

definition avatar_calls :: "(env \<times> string \<times> user_updates) list" where
  "avatar_calls = [(env2, ''u1'', no_updates\<lparr>upd_avatar := Some ''new.png''\<rparr>)]"

definition full_store :: data_store where
  "full_store = store1\<lparr>messages := replicate 1000 msgA\<rparr>"

definition alice_session :: socket_user where
  "alice_session = \<lparr>su_user = Some alice, socketId = ''sA''\<rparr>"

definition server2 :: server where
  "server2 = \<lparr>store = store1, connectedUsers = [(''sA'', alice_session)],
              general = [''sA''], outbox = []\<rparr>"

definition empty_raw :: raw_message where
  "empty_raw = \<lparr>rm_text = None, rm_content = None, rm_type = None, rm_file = None\<rparr>"

text \<open>
  A store as a restart leaves it: the users file holds Alice as she was saved, online;
  \<^verbatim>\<open>loadData\<close> has put her into the map with \<^verbatim>\<open>isOnline: false\<close>.
\<close>

definition restarted_store :: data_store where
  "restarted_store =
     \<lparr>users = [(''u1'', alice\<lparr>isOnline := False\<rparr>)], messages = [], rooms = [],
      files = \<lparr>usersFile = [alice], messagesFile = [], roomsFile = []\<rparr>\<rparr>"

definition blank_raw :: raw_message where
  "blank_raw = \<lparr>rm_text = None, rm_content = Some ''   '', rm_type = Some Text, rm_file = None\<rparr>"

definition blank_send :: send_data where
  "blank_send = \<lparr>sd_content = ''   '', sd_type = Text, sd_file = None\<rparr>"

definition hi_raw :: raw_message where
  "hi_raw = \<lparr>rm_text = None, rm_content = Some ''hi'', rm_type = Some Text, rm_file = None\<rparr>"

definition hi_send :: send_data where
  "hi_send = \<lparr>sd_content = ''hi'', sd_type = Text, sd_file = None\<rparr>"

definition carol_data :: user_data where
  "carol_data = \<lparr>ud_username = ''carol'', ud_avatar = ''c.png''\<rparr>"

definition env_c :: env where
  "env_c = \<lparr>uuid = ''u3'', now = 5000, now_again = 5001, io = WriteOk\<rparr>"

definition bob_session :: socket_user where
  "bob_session = \<lparr>su_user = Some bob, socketId = ''sB''\<rparr>"

definition dave_data :: user_data where
  "dave_data = \<lparr>ud_username = ''dave'', ud_avatar = ''v.png''\<rparr>"

definition env_v :: env where
  "env_v = \<lparr>uuid = ''u5'', now = 5500, now_again = 5500, io = WriteOk\<rparr>"

definition later_events :: "(env \<times> event) list" where
  "later_events =
     [(env1, SendMessage ''sA'' hi_send), (env_v, Join ''sV'' dave_data),
      (env2, Disconnect ''sA'')]"

definition env_d :: env where
  "env_d = \<lparr>uuid = ''u4'', now = 6000, now_again = 6001, io = WriteOk\<rparr>"

section \<open>Lemmas on the primitives\<close>

lemma slice_neg_take_last:
  "0 < n \<Longrightarrow> slice xs (- n) = drop (length xs - nat n) xs"
  by (auto simp: slice_def Let_def max_def nat_diff_distrib' intro: arg_cong [where f = "\<lambda>k. drop k xs"])

lemma slice_zero: "slice xs 0 = xs"
  by (simp add: slice_def)

lemma length_slice_1000: "length (slice xs (- 1000)) \<le> 1000"
  by (simp add: slice_def Let_def)

lemma slice_1000_short: "length xs \<le> 1000 \<Longrightarrow> slice xs (- 1000) = xs"
  by (simp add: slice_def Let_def)

lemma slice_1000_drop: "slice xs (- 1000) = drop (length xs - 1000) xs"
  using slice_neg_take_last [of 1000 xs] by simp

section \<open>Lemmas on the store\<close>

lemma messages_saveData [simp]: "messages (saveData outcome s) = messages s"
  by (simp add: saveData_def Let_def)

lemma users_saveData [simp]: "users (saveData outcome s) = users s"
  by (simp add: saveData_def Let_def)

lemma rooms_saveData [simp]: "rooms (saveData outcome s) = rooms s"
  by (simp add: saveData_def Let_def)

lemma messagesFile_saveData:
  "messagesFile (files (saveData outcome s)) =
     (if outcome = WriteOk \<or> outcome = FailRooms then slice (messages s) (- 1000)
      else messagesFile (files s))"
  by (cases outcome) (simp_all add: saveData_def Let_def)

lemma capped_saveData:
  "length (messages s) \<le> 1000 \<Longrightarrow> length (messagesFile (files s)) \<le> 1000
     \<Longrightarrow> capped (saveData outcome s)"
  by (simp add: capped_def messagesFile_saveData length_slice_1000)

lemma getRecentMessages_positive:
  "0 < l \<Longrightarrow> getRecentMessages s (Some l) = drop (length (messages s) - nat l) (messages s)"
  by (simp add: getRecentMessages_def slice_neg_take_last)

lemma messages_push_message:
  "messages (push_message e m s) = slice (messages s @ [m]) (- 1000)"
  by (simp add: push_message_def Let_def slice_1000_short)

lemma users_push_message [simp]: "users (push_message e m s) = users s"
  by (simp add: push_message_def Let_def)

lemma length_messages_push:
  "length (messages (push_message e m s)) = min 1000 (length (messages s) + 1)"
  by (simp add: messages_push_message slice_1000_drop)

lemma capped_push_message:
  "length (messagesFile (files s)) \<le> 1000 \<Longrightarrow> capped (push_message e m s)"
  unfolding push_message_def Let_def
  by (rule capped_saveData) (simp_all add: length_slice_1000)

lemma messagesFile_push_ok:
  "io e = WriteOk \<Longrightarrow> messagesFile (files (push_message e m s)) = messages (push_message e m s)"
  by (simp add: push_message_def Let_def messagesFile_saveData slice_1000_short length_slice_1000)

lemma createMessage_unknown:
  "map_get (users s) (md_userId md) = None \<Longrightarrow> createMessage e md s = (None, s)"
  by (simp add: createMessage_def)

lemma createMessage_known:
  "map_get (users s) (md_userId md) = Some u \<Longrightarrow>
   createMessage e md s =
     (Some (new_message e md (md_content md) u),
      push_message e (new_message e md (md_content md) u) s)"
  by (simp add: createMessage_def Let_def)

lemma createMessage_ts_unknown:
  "md_content md = [] \<or> md_userId md = [] \<or> map_get (users s) (md_userId md) = None
     \<Longrightarrow> createMessage_ts e md s = (None, s)"
  by (auto simp: createMessage_ts_def)

lemma createMessage_ts_known:
  "md_content md \<noteq> [] \<Longrightarrow> md_userId md \<noteq> [] \<Longrightarrow> map_get (users s) (md_userId md) = Some u \<Longrightarrow>
   createMessage_ts e md s =
     (Some (new_message e md (trim (md_content md)) u),
      push_message e (new_message e md (trim (md_content md)) u) s)"
  by (simp add: createMessage_ts_def Let_def)

section \<open>C1: what createMessage rejects\<close>

text \<open>
  What both versions of \<^verbatim>\<open>createMessage\<close> do reject: an unknown user, and in the
  TypeScript version also an empty content or user id. The answer is \<^verbatim>\<open>null\<close>, a value,
  and the store is what it was.
\<close>

lemma createMessage_null_cases:
  "(map_get (users s) (md_userId md) = None \<longrightarrow>
      createMessage e md s = (None, s) \<and> createMessage_ts e md s = (None, s)) \<and>
   (md_content md = [] \<or> md_userId md = [] \<longrightarrow> createMessage_ts e md s = (None, s))"
  by (simp add: createMessage_unknown createMessage_ts_unknown)

text \<open>
  C1 says that \<^verbatim>\<open>createMessage\<close> answers \<^verbatim>\<open>null\<close> and leaves the history alone when a
  text message has no content left after trimming; in particular a content of white
  space only stores no message. The code misses that case. For the content of three
  spaces, type text and the known user Alice: \<^verbatim>\<open>createMessage\<close> of the compiled store
  stores the message; the TypeScript \<^verbatim>\<open>createMessage\<close>, which refuses the empty content,
  lets the three spaces pass its test, trims them and stores a text message with the
  empty content; and \<^verbatim>\<open>sendMessage\<close> of \<^verbatim>\<open>dist/server.js\<close> on Alice's connection stores the
  blank message and broadcasts it to the room. Only the handler that validates its
  payload turns it away, with an \<^verbatim>\<open>error\<close> to the sender.
\<close>

theorem createMessage_blank_stored:
  "md_type blank = Text \<and> trim (md_content blank) = [] \<and>
   fst (createMessage env1 blank store1) = Some (new_message env1 blank ''   '' alice) \<and>
   messages (snd (createMessage env1 blank store1)) = [new_message env1 blank ''   '' alice] \<and>
   fst (createMessage_ts env1 blank store1) = Some (new_message env1 blank [] alice) \<and>
   messages (snd (createMessage_ts env1 blank store1)) = [new_message env1 blank [] alice] \<and>
   fst (createMessage_ts env1 (blank\<lparr>md_content := []\<rparr>) store1) = None \<and>
   messages (store (sendMessage env1 ''sA'' blank_send server2)) =
     [new_message env1 blank ''   '' alice] \<and>
   sent_by server2 (sendMessage env1 ''sA'' blank_send server2) =
     [(ToRoom, NewMessage (new_message env1 blank ''   '' alice))] \<and>
   sendMessage_v1 env1 ''sA'' (Some blank_raw) server2 =
     Inr (emit server2 [(ToSocket ''sA'', Error empty_content_error)])"
  by code_simp

section \<open>C3: getRecentMessages\<close>

text \<open>
  C3 says that \<^verbatim>\<open>getRecentMessages(limit)\<close> returns the last \<open>min(limit, length)\<close>
  messages for every \<open>limit \<ge> 0\<close>, so nothing for the limit 0. The code takes
  \<^verbatim>\<open>slice(-limit)\<close>, and \<^verbatim>\<open>slice(-0)\<close> is \<^verbatim>\<open>slice(0)\<close>: with the limit 0 it returns the whole
  history, here both messages of a history of two.
\<close>

theorem getRecentMessages_zero_returns_all:
  "getRecentMessages store2 (Some 0) = [msgA, msgB]"
  by (simp add: getRecentMessages_def slice_zero store2_def)

section \<open>C10: the two versions of createMessage\<close>

text \<open>
  C10 says that \<^verbatim>\<open>createMessage\<close> of \<^verbatim>\<open>dist/storage/DataStore.js\<close> and of the TypeScript
  source agree on every input. They do not: for the empty content and a known user the
  compiled version stores a message and the source answers \<^verbatim>\<open>null\<close>; for the content
  \<^verbatim>\<open>" hi "\<close> the compiled version stores it as it is and the source stores \<^verbatim>\<open>"hi"\<close>.
\<close>

theorem createMessage_versions_differ:
  "fst (createMessage env1 (hello\<lparr>md_content := []\<rparr>) store1) \<noteq> None \<and>
   fst (createMessage_ts env1 (hello\<lparr>md_content := []\<rparr>) store1) = None \<and>
   map_option content (fst (createMessage env1 padded store1)) = Some '' hi '' \<and>
   map_option content (fst (createMessage_ts env1 padded store1)) = Some ''hi''"
  by code_simp

text \<open>Where they do agree: a non-empty content with nothing to trim and a non-empty user id.\<close>

lemma createMessage_versions_agree:
  "md_content md \<noteq> [] \<Longrightarrow> trim (md_content md) = md_content md \<Longrightarrow> md_userId md \<noteq> []
     \<Longrightarrow> createMessage_ts e md s = createMessage e md s"
  by (cases "map_get (users s) (md_userId md)") (simp_all add: createMessage_ts_def createMessage_def)

section \<open>C5: the retention sweep\<close>

lemma set_slice_subset: "set (slice xs k) \<subseteq> set xs"
  by (simp add: slice_def Let_def set_drop_subset)

lemma usersFile_saveData:
  "usersFile (files (saveData outcome s)) =
     (if outcome = FailUsers then usersFile (files s) else map_values (users s))"
  by (cases outcome) (simp_all add: saveData_def Let_def)

text \<open>
  C5 says that \<^verbatim>\<open>cleanup()\<close> leaves the users collection completely unchanged. That holds
  of the map in memory. The users file does change: \<^verbatim>\<open>cleanup\<close> ends in \<^verbatim>\<open>saveData\<close>, which
  writes the whole map over the file. After a restart the file holds Alice online and
  the map holds her offline; \<^verbatim>\<open>cleanup\<close> then rewrites the file.
\<close>

theorem cleanup_users_file_counterexample:
  "usersFile (files restarted_store) = [alice] \<and>
   usersFile (files (cleanup env3 restarted_store)) = [alice\<lparr>isOnline := False\<rparr>] \<and>
   usersFile (files (cleanup env3 restarted_store)) \<noteq> usersFile (files restarted_store)"
  by code_simp

text \<open>
  C5, amended: after \<^verbatim>\<open>cleanup()\<close> the history in memory is the messages created less
  than seven days before, in their order; a message older than seven days is in neither
  the memory nor, once the snapshot is written, the messages file; a message newer than
  seven days that was in memory still is; the users map in memory is what it was; and
  the users file, unless its write fails, holds the values of that map, so it is
  unchanged exactly when it held them before.
\<close>

theorem cleanup_retention:
  "messages (cleanup e s) = filter (\<lambda>m. now e - oneWeek < createdAt_msg m) (messages s) \<and>
   (\<forall>m. createdAt_msg m < now e - oneWeek \<longrightarrow>
      m \<notin> set (messages (cleanup e s)) \<and>
      (io e = WriteOk \<longrightarrow> m \<notin> set (messagesFile (files (cleanup e s))))) \<and>
   (\<forall>m \<in> set (messages s). now e - oneWeek < createdAt_msg m \<longrightarrow>
      m \<in> set (messages (cleanup e s))) \<and>
   (io e = WriteOk \<longrightarrow>
      messagesFile (files (cleanup e s)) = slice (messages (cleanup e s)) (- 1000)) \<and>
   users (cleanup e s) = users s \<and>
   (io e \<noteq> FailUsers \<longrightarrow> usersFile (files (cleanup e s)) = map_values (users s)) \<and>
   (io e = FailUsers \<longrightarrow> usersFile (files (cleanup e s)) = usersFile (files s)) \<and>
   (io e \<noteq> FailUsers \<longrightarrow>
      (usersFile (files (cleanup e s)) = usersFile (files s)) =
      (usersFile (files s) = map_values (users s)))"
proof -
  have mem: "messages (cleanup e s) = filter (\<lambda>m. now e - oneWeek < createdAt_msg m) (messages s)"
    by (simp add: cleanup_def Let_def)
  have written: "io e = WriteOk \<Longrightarrow>
      messagesFile (files (cleanup e s)) = slice (messages (cleanup e s)) (- 1000)"
    by (simp add: cleanup_def Let_def messagesFile_saveData)
  have old: "m \<notin> set (messages (cleanup e s))" if "createdAt_msg m < now e - oneWeek" for m
    using that by (simp add: mem)
  have old_file: "m \<notin> set (messagesFile (files (cleanup e s)))"
    if "createdAt_msg m < now e - oneWeek" "io e = WriteOk" for m
    using old [OF that(1)] written [OF that(2)] set_slice_subset [of "messages (cleanup e s)" "- 1000"]
    by auto
  have usr: "users (cleanup e s) = users s"
    by (simp add: cleanup_def Let_def)
  have ufile: "usersFile (files (cleanup e s)) =
      (if io e = FailUsers then usersFile (files s) else map_values (users s))"
    by (simp add: cleanup_def Let_def usersFile_saveData)
  have sync: "io e \<noteq> FailUsers \<Longrightarrow>
      (usersFile (files (cleanup e s)) = usersFile (files s)) =
      (usersFile (files s) = map_values (users s))"
    using ufile by auto
  show ?thesis
    using mem written old old_file usr ufile sync by simp
qed

theorem cleanup_retention_witness:
  "createdAt_msg msgA < now env3 - oneWeek \<and>
   msgA \<notin> set (messages (cleanup env3 store2)) \<and>
   io env3 = WriteOk \<and>
   msgA \<notin> set (messagesFile (files (cleanup env3 store2))) \<and>
   msgB \<in> set (messages store2) \<and>
   now env3 - oneWeek < createdAt_msg msgB \<and>
   msgB \<in> set (messages (cleanup env3 store2)) \<and>
   users (cleanup env3 store2) = users store2 \<and>
   io env3 \<noteq> FailUsers \<and>
   usersFile (files (cleanup env3 store2)) = map_values (users store2) \<and>
   io (env3\<lparr>io := FailUsers\<rparr>) = FailUsers \<and>
   usersFile (files (cleanup (env3\<lparr>io := FailUsers\<rparr>) store2)) = usersFile (files store2)"
proof -
  note r = cleanup_retention [of env3 store2]
  have a: "createdAt_msg msgA < now env3 - oneWeek"
    by (simp add: msgA_def new_message_def env1_def env3_def oneWeek_def)
  have b: "io env3 = WriteOk"
    by (simp add: env3_def)
  have b': "io env3 \<noteq> FailUsers"
    by (simp add: env3_def)
  have c: "msgB \<in> set (messages store2)"
    by (simp add: store2_def)
  have d: "now env3 - oneWeek < createdAt_msg msgB"
    by (simp add: msgB_def new_message_def env2_def env3_def oneWeek_def)
  have f: "io (env3\<lparr>io := FailUsers\<rparr>) = FailUsers"
    by simp
  from r a have 1: "msgA \<notin> set (messages (cleanup env3 store2))" by blast
  from r a b have 2: "msgA \<notin> set (messagesFile (files (cleanup env3 store2)))" by blast
  from r c d have 3: "msgB \<in> set (messages (cleanup env3 store2))" by blast
  from r have 4: "users (cleanup env3 store2) = users store2" by blast
  from r b' have 5: "usersFile (files (cleanup env3 store2)) = map_values (users store2)" by blast
  from f cleanup_retention [of "env3\<lparr>io := FailUsers\<rparr>" store2]
  have 6: "usersFile (files (cleanup (env3\<lparr>io := FailUsers\<rparr>) store2)) = usersFile (files store2)"
    by blast
  show ?thesis using a b b' c d f 1 2 3 4 5 6 by blast
qed

section \<open>C9: the user snapshot of a message\<close>

lemma messages_updateUser [simp]: "messages (snd (updateUser e i upd s)) = messages s"
  by (simp add: updateUser_def Let_def split: option.split)

lemma messages_createUser [simp]: "messages (snd (createUser e ud s)) = messages s"
  by (simp add: createUser_def Let_def)

lemma messages_updateUsers: "messages (updateUsers calls s) = messages s"
  by (induction calls s rule: updateUsers.induct) simp_all

lemma messages_resolve_user [simp]: "messages (snd (resolve_user e ud s)) = messages s"
  by (simp add: resolve_user_def case_prod_beta split: option.split)

lemma store_emit [simp]: "store (emit sv ems) = store sv"
  by (simp add: emit_def)

lemma messages_join: "messages (store (join e sid ud sv)) = messages (store sv)"
proof -
  obtain u st1 where r: "resolve_user e ud (store sv) = (u, st1)"
    by (cases "resolve_user e ud (store sv)")
  then have "messages st1 = messages (store sv)"
    using messages_resolve_user [of e ud "store sv"] by simp
  with r show ?thesis
    by (simp add: join_def Let_def split: option.split)
qed

lemma messages_disconnect: "messages (store (disconnect e sid sv)) = messages (store sv)"
  by (simp add: disconnect_def Let_def split: option.split)

lemma last_slice_snoc: "last (slice (xs @ [x]) (- 1000)) = x"
  by (simp add: slice_1000_drop)

lemma createMessage_result:
  assumes "createMessage e md s = (Some m, s')"
  shows "map_get (users s) (md_userId md) = Some (user_msg m) \<and>
         content m = md_content md \<and> s' = push_message e m s"
proof (cases "map_get (users s) (md_userId md)")
  case None
  with assms show ?thesis by (simp add: createMessage_unknown)
next
  case (Some u)
  with assms show ?thesis by (auto simp: createMessage_known new_message_def)
qed

lemma createMessage_ts_result:
  assumes "createMessage_ts e md s = (Some m, s')"
  shows "map_get (users s) (md_userId md) = Some (user_msg m) \<and>
         content m = trim (md_content md) \<and> s' = push_message e m s"
proof (cases "md_content md = [] \<or> md_userId md = [] \<or> map_get (users s) (md_userId md) = None")
  case True
  with assms show ?thesis using createMessage_ts_unknown [OF True, of e] by simp
next
  case False
  then obtain u where "map_get (users s) (md_userId md) = Some u" by auto
  with False assms show ?thesis by (auto simp: createMessage_ts_known new_message_def)
qed

text \<open>
  C9: a message that \<^verbatim>\<open>createMessage\<close> (either version) returns carries the record the
  users map held for the sender at that moment, and is the newest entry of the history;
  no later \<^verbatim>\<open>updateUser\<close> call, and no later \<^verbatim>\<open>join\<close> or \<^verbatim>\<open>disconnect\<close>, changes the history,
  so the snapshot stays as it was.
\<close>

theorem snapshot_frozen:
  assumes "createMessage e md s = (Some m, s') \<or> createMessage_ts e md s = (Some m, s')"
  shows "findUserById s (md_userId md) = Some (user_msg m) \<and>
         last (messages s') = m \<and>
         messages (updateUsers calls s') = messages s' \<and>
         (store sv = s' \<longrightarrow>
            messages (store (join e1 sid1 ud sv)) = messages s' \<and>
            messages (store (disconnect e2 sid2 sv)) = messages s')"
proof -
  from assms have r: "map_get (users s) (md_userId md) = Some (user_msg m) \<and> s' = push_message e m s"
    using createMessage_result createMessage_ts_result by blast
  then have "last (messages s') = m"
    by (simp add: messages_push_message last_slice_snoc)
  with r show ?thesis
    by (simp add: findUserById_def messages_updateUsers messages_join messages_disconnect)
qed

text \<open>
  The witness: Alice sends \<^verbatim>\<open>"hi"\<close>, then her avatar is changed. The users map holds the
  new avatar; the message still holds the record with the old one.
\<close>

theorem snapshot_frozen_witness:
  "createMessage env1 hello store1 = (Some msgA, push_message env1 msgA store1) \<and>
   findUserById store1 (md_userId hello) = Some (user_msg msgA) \<and>
   last (messages (push_message env1 msgA store1)) = msgA \<and>
   messages (updateUsers avatar_calls (push_message env1 msgA store1)) =
     messages (push_message env1 msgA store1) \<and>
   findUserById (updateUsers avatar_calls (push_message env1 msgA store1)) (md_userId hello)
     = Some (alice\<lparr>avatar := ''new.png''\<rparr>) \<and>
   user_msg msgA = alice"
proof -
  have a: "createMessage env1 hello store1 = (Some msgA, push_message env1 msgA store1)"
    by (simp add: createMessage_def store1_def hello_def map_get_def msgA_def Let_def)
  have b: "findUserById (updateUsers avatar_calls (push_message env1 msgA store1)) (md_userId hello)
     = Some (alice\<lparr>avatar := ''new.png''\<rparr>)"
    by (simp add: avatar_calls_def updateUser_def findUserById_def map_get_def store1_def
        hello_def Let_def spread_user_def no_updates_def alice_def)
  have c: "user_msg msgA = alice"
    by (simp add: msgA_def new_message_def)
  show ?thesis
    using a b c snapshot_frozen [OF disjI1 [OF a], of avatar_calls]
    by simp
qed

section \<open>C4: the cap on the history\<close>

lemma capped_createUser: "capped s \<Longrightarrow> capped (snd (createUser e ud s))"
  unfolding createUser_def Let_def snd_conv
  by (rule capped_saveData) (simp_all add: capped_def)

lemma capped_updateUser: "capped s \<Longrightarrow> capped (snd (updateUser e i upd s))"
proof (cases "map_get (users s) i")
  case None
  then show "capped s \<Longrightarrow> ?thesis" by (simp add: updateUser_def)
next
  case (Some u)
  assume "capped s"
  then have "capped (saveData (io e) (s\<lparr>users := map_set (users s) i (spread_user u upd)\<rparr>))"
    by (intro capped_saveData) (simp_all add: capped_def)
  with Some show ?thesis by (simp add: updateUser_def Let_def)
qed

lemma capped_createRoom: "capped s \<Longrightarrow> capped (snd (createRoom e rd s))"
  unfolding createRoom_def Let_def snd_conv
  by (rule capped_saveData) (simp_all add: capped_def)

lemma capped_cleanup: "capped s \<Longrightarrow> capped (cleanup e s)"
  unfolding cleanup_def Let_def
  by (rule capped_saveData) (simp_all add: capped_def le_trans [OF length_filter_le])

lemma capped_createMessage: "capped s \<Longrightarrow> capped (snd (createMessage e md s))"
proof (cases "map_get (users s) (md_userId md)")
  case None
  then show "capped s \<Longrightarrow> ?thesis" by (simp add: createMessage_unknown)
next
  case (Some u)
  assume "capped s"
  then have "length (messagesFile (files s)) \<le> 1000" by (simp add: capped_def)
  from capped_push_message [OF this] Some show ?thesis by (simp add: createMessage_known)
qed

lemma capped_createMessage_ts: "capped s \<Longrightarrow> capped (snd (createMessage_ts e md s))"
proof (cases "md_content md = [] \<or> md_userId md = [] \<or> map_get (users s) (md_userId md) = None")
  case True
  from createMessage_ts_unknown [OF this] show "capped s \<Longrightarrow> ?thesis" by simp
next
  case False
  then obtain u where u: "map_get (users s) (md_userId md) = Some u" by auto
  assume "capped s"
  then have "length (messagesFile (files s)) \<le> 1000" by (simp add: capped_def)
  from capped_push_message [OF this] False u show ?thesis by (simp add: createMessage_ts_known)
qed

lemma push_full:
  "length (messages s) = 1000 \<Longrightarrow> messages (push_message e m s) = tl (messages s) @ [m]"
  by (cases "messages s") (simp_all add: messages_push_message slice_1000_drop)

lemma slice_1000_append:
  "slice (slice xs (- 1000) @ ys) (- 1000) = slice (xs @ ys) (- 1000)"
proof (cases "length xs \<le> 1000")
  case True
  then show ?thesis by (simp add: slice_1000_short)
next
  case False
  then have "length xs + length ys - 1000 = length ys + (length xs - 1000)" by simp
  with False show ?thesis by (simp add: slice_1000_drop)
qed

lemma createMessages_all:
  "list_all (\<lambda>(e, md). map_get (users s) (md_userId md) \<noteq> None) reqs \<Longrightarrow>
   \<exists>ms. fst (createMessages reqs s) = map Some ms \<and> length ms = length reqs \<and>
        users (snd (createMessages reqs s)) = users s \<and>
        messages (snd (createMessages reqs s)) =
          (if reqs = [] then messages s else slice (messages s @ ms) (- 1000))"
proof (induction reqs arbitrary: s)
  case Nil
  show ?case by simp
next
  case (Cons r reqs)
  obtain e md where r: "r = (e, md)" by (cases r)
  from Cons.prems r obtain u where u: "map_get (users s) (md_userId md) = Some u"
    by auto
  define m where "m = new_message e md (md_content md) u"
  define s1 where "s1 = push_message e m s"
  have step: "createMessage e md s = (Some m, s1)"
    using u by (simp add: createMessage_known m_def s1_def)
  have us: "users s1 = users s" by (simp add: s1_def)
  have ms1: "messages s1 = slice (messages s @ [m]) (- 1000)"
    by (simp add: s1_def messages_push_message)
  from Cons.prems have "list_all (\<lambda>(e, md). map_get (users s1) (md_userId md) \<noteq> None) reqs"
    by (simp add: us)
  from Cons.IH [OF this] obtain ms where
    ms: "fst (createMessages reqs s1) = map Some ms" "length ms = length reqs"
        "users (snd (createMessages reqs s1)) = users s1"
        "messages (snd (createMessages reqs s1)) =
          (if reqs = [] then messages s1 else slice (messages s1 @ ms) (- 1000))"
    by blast
  have "messages (snd (createMessages reqs s1)) = slice (messages s @ m # ms) (- 1000)"
  proof (cases "reqs = []")
    case True
    with ms show ?thesis by (simp add: ms1)
  next
    case False
    with ms have "messages (snd (createMessages reqs s1)) =
        slice (slice (messages s @ [m]) (- 1000) @ ms) (- 1000)"
      by (simp add: ms1)
    then show ?thesis using slice_1000_append [of "messages s @ [m]" ms] by simp
  qed
  with ms us step r show ?case
    by (intro exI [of _ "m # ms"]) (simp add: case_prod_beta)
qed

lemma createMessages_file:
  "reqs \<noteq> [] \<Longrightarrow> list_all (\<lambda>(e, md). map_get (users s) (md_userId md) \<noteq> None) reqs \<Longrightarrow>
   io (fst (last reqs)) = WriteOk \<Longrightarrow>
   messagesFile (files (snd (createMessages reqs s))) = messages (snd (createMessages reqs s))"
proof (induction reqs arbitrary: s)
  case Nil
  then show ?case by simp
next
  case (Cons r reqs)
  obtain e md where r: "r = (e, md)" by (cases r)
  from Cons.prems r obtain u where u: "map_get (users s) (md_userId md) = Some u"
    by auto
  define m where "m = new_message e md (md_content md) u"
  define s1 where "s1 = push_message e m s"
  have step: "createMessage e md s = (Some m, s1)"
    using u by (simp add: createMessage_known m_def s1_def)
  have us: "users s1 = users s" by (simp add: s1_def)
  show ?case
  proof (cases "reqs = []")
    case True
    with Cons.prems r step show ?thesis
      by (simp add: s1_def messagesFile_push_ok)
  next
    case False
    from Cons.prems have "list_all (\<lambda>(e, md). map_get (users s1) (md_userId md) \<noteq> None) reqs"
      by (simp add: us)
    moreover from Cons.prems False have "io (fst (last reqs)) = WriteOk" by simp
    ultimately have "messagesFile (files (snd (createMessages reqs s1))) =
        messages (snd (createMessages reqs s1))"
      using Cons.IH [OF False] by blast
    with r step show ?thesis by (simp add: case_prod_beta)
  qed
qed

text \<open>
  C4: every operation of the store that writes (\<^verbatim>\<open>createUser\<close>, \<^verbatim>\<open>updateUser\<close>, both
  \<^verbatim>\<open>createMessage\<close>, \<^verbatim>\<open>createRoom\<close>, \<^verbatim>\<open>cleanup\<close>; the others return a value and change
  nothing) keeps at most 1000 messages in memory and at most 1000 in the messages
  file; a message created on a history of 1000 takes the place of the oldest; and 1001
  messages created in a row, for known users, leave the last 1000 of them in memory
  and, the last snapshot written, in the file.
\<close>

theorem history_cap:
  "(capped s \<longrightarrow>
      capped (snd (createUser e ud s)) \<and> capped (snd (updateUser e i upd s)) \<and>
      capped (snd (createMessage e md s)) \<and> capped (snd (createMessage_ts e md s)) \<and>
      capped (snd (createRoom e rd s)) \<and> capped (cleanup e s)) \<and>
   (length (messages s) = 1000 \<and> createMessage e md s = (Some m, s') \<longrightarrow>
      messages s' = tl (messages s) @ [m]) \<and>
   (length reqs = 1001 \<and>
    list_all (\<lambda>(e, md). map_get (users s) (md_userId md) \<noteq> None) reqs \<and>
    io (fst (last reqs)) = WriteOk \<longrightarrow>
      (\<exists>ms. fst (createMessages reqs s) = map Some ms \<and> length ms = 1001 \<and>
            messages (snd (createMessages reqs s)) = tl ms \<and>
            length (messages (snd (createMessages reqs s))) = 1000 \<and>
            messagesFile (files (snd (createMessages reqs s))) = tl ms))"
proof -
  have inv: "capped s \<Longrightarrow>
      capped (snd (createUser e ud s)) \<and> capped (snd (updateUser e i upd s)) \<and>
      capped (snd (createMessage e md s)) \<and> capped (snd (createMessage_ts e md s)) \<and>
      capped (snd (createRoom e rd s)) \<and> capped (cleanup e s)"
    by (simp add: capped_createUser capped_updateUser capped_createMessage
        capped_createMessage_ts capped_createRoom capped_cleanup)
  have full: "messages s' = tl (messages s) @ [m]"
    if "length (messages s) = 1000" "createMessage e md s = (Some m, s')"
    using createMessage_result [OF that(2)] push_full [OF that(1)] by simp
  have many: "\<exists>ms. fst (createMessages reqs s) = map Some ms \<and> length ms = 1001 \<and>
            messages (snd (createMessages reqs s)) = tl ms \<and>
            length (messages (snd (createMessages reqs s))) = 1000 \<and>
            messagesFile (files (snd (createMessages reqs s))) = tl ms"
    if len: "length reqs = 1001"
      and known: "list_all (\<lambda>(e, md). map_get (users s) (md_userId md) \<noteq> None) reqs"
      and ok: "io (fst (last reqs)) = WriteOk"
  proof -
    from len have ne: "reqs \<noteq> []" by auto
    from createMessages_all [OF known] ne obtain ms where
      ms: "fst (createMessages reqs s) = map Some ms" "length ms = length reqs"
          "messages (snd (createMessages reqs s)) = slice (messages s @ ms) (- 1000)"
      by auto
    from ms(2) len have "slice (messages s @ ms) (- 1000) = drop 1 ms"
      by (simp add: slice_1000_drop)
    with ms have mem: "messages (snd (createMessages reqs s)) = tl ms"
      by (simp add: drop_Suc)
    with ms(2) len have n: "length (messages (snd (createMessages reqs s))) = 1000"
      by simp
    from createMessages_file [OF ne known ok] mem
    have "messagesFile (files (snd (createMessages reqs s))) = tl ms" by simp
    with ms(1,2) len mem n show ?thesis by auto
  qed
  show ?thesis using inv full many by blast
qed

theorem history_cap_witness:
  "capped store1 \<and>
   capped (snd (createMessage env1 hello store1)) \<and>
   capped (cleanup env1 store1) \<and>
   length (messages full_store) = 1000 \<and>
   createMessage env2 hello full_store = (Some msgB, push_message env2 msgB full_store) \<and>
   messages (push_message env2 msgB full_store) = tl (messages full_store) @ [msgB] \<and>
   length (replicate 1001 (env1, hello)) = 1001 \<and>
   io (fst (last (replicate 1001 (env1, hello)))) = WriteOk \<and>
   length (messages (snd (createMessages (replicate 1001 (env1, hello)) store1))) = 1000 \<and>
   messagesFile (files (snd (createMessages (replicate 1001 (env1, hello)) store1))) =
     messages (snd (createMessages (replicate 1001 (env1, hello)) store1))"
proof -
  have a: "capped store1"
    by (simp add: capped_def store1_def empty_disk_def)
  have b: "length (messages full_store) = 1000"
    by (simp add: full_store_def)
  have c: "createMessage env2 hello full_store = (Some msgB, push_message env2 msgB full_store)"
    by (simp add: createMessage_def full_store_def store1_def hello_def map_get_def msgB_def Let_def)
  have d: "length (replicate 1001 (env1, hello)) = 1001"
    by simp
  have f: "list_all (\<lambda>(e, md). map_get (users store1) (md_userId md) \<noteq> None)
             (replicate 1001 (env1, hello))"
    by (simp add: list_all_iff store1_def hello_def map_get_def)
  have g: "io (fst (last (replicate 1001 (env1, hello)))) = WriteOk"
    by (simp add: env1_def)
  have 1: "capped (snd (createMessage env1 hello store1)) \<and> capped (cleanup env1 store1)"
    using a history_cap [of store1 env1 _ _ _ hello] by blast
  have 2: "messages (push_message env2 msgB full_store) = tl (messages full_store) @ [msgB]"
    using b c history_cap [of full_store env2 _ _ _ hello _ msgB "push_message env2 msgB full_store"]
    by blast
  have 3: "length (messages (snd (createMessages (replicate 1001 (env1, hello)) store1))) = 1000 \<and>
      messagesFile (files (snd (createMessages (replicate 1001 (env1, hello)) store1))) =
       messages (snd (createMessages (replicate 1001 (env1, hello)) store1))"
    using d f g history_cap [of store1 _ _ _ _ _ _ _ _ "replicate 1001 (env1, hello)"]
    by metis
  show ?thesis using a b c d g 1 2 3 by blast
qed

section \<open>Lemmas on the map and the handlers\<close>

lemma map_get_map_set_same [simp]: "map_get (map_set m k v) k = Some v"
  by (induction m) (auto simp: map_get_def)

lemma map_get_map_set_other [simp]: "k' \<noteq> k \<Longrightarrow> map_get (map_set m k v) k' = map_get m k'"
  by (induction m) (auto simp: map_get_def)

lemma map_get_map_delete_same [simp]: "map_get (map_delete m k) k = None"
  by (induction m) (auto simp: map_get_def map_delete_def)

lemma map_set_fresh: "map_get m k = None \<Longrightarrow> map_set m k v = m @ [(k, v)]"
  by (induction m) (auto simp: map_get_def split: if_splits)

lemma map_fst_map_set_present:
  "map_get m k = Some v0 \<Longrightarrow> map fst (map_set m k v) = map fst m"
  by (induction m) (auto simp: map_get_def split: if_splits)

section \<open>C6: sendMessage on a connection without session\<close>

lemma sendMessage_no_session:
  "map_get (connectedUsers sv) sid = None \<Longrightarrow> sendMessage e sid messageData sv = sv"
  by (simp add: sendMessage_def)

lemma sent_by_emit [simp]: "sent_by sv (emit sv ems) = ems"
  by (simp add: sent_by_def emit_def)

lemma sent_by_same [simp]: "sent_by sv sv = []"
  by (simp add: sent_by_def)

lemma trim_Nil [simp]: "trim [] = []"
  by (simp add: trim_def)

text \<open>
  C6 says that a \<^verbatim>\<open>sendMessage\<close> on a connection without session is a no-op that emits
  no error to the sender. The version of the handler that normalises its payload
  validates before it looks the session up: for the content of three spaces, on a
  connection that never joined, it emits an \<^verbatim>\<open>error\<close> event to the sender.
\<close>

theorem sendMessage_v1_error_counterexample:
  "map_get (connectedUsers server1) ''sA'' = None \<and>
   sendMessage_v1 env1 ''sA'' (Some blank_raw) server1 =
     Inr (emit server1 [(ToSocket ''sA'', Error empty_content_error)]) \<and>
   sent_by server1 (emit server1 [(ToSocket ''sA'', Error empty_content_error)]) =
     [(ToSocket ''sA'', Error empty_content_error)] \<and>
   event_name (Error empty_content_error) = ''error''"
  by code_simp

text \<open>
  C6, amended: on a connection without session, \<^verbatim>\<open>sendMessage\<close> of \<^verbatim>\<open>dist/server.js\<close>
  changes nothing at all. The handler that normalises first does one of four things,
  and what it does is decided by the payload alone. A payload that passes its validation
  (a \<^verbatim>\<open>text\<close> or \<^verbatim>\<open>content\<close> that is not blank): nothing at all. A payload with neither
  \<^verbatim>\<open>text\<close> nor \<^verbatim>\<open>content\<close>: exactly one emit, the \<^verbatim>\<open>error\<close> "Contenido del mensaje es
  requerido" to the sender. A payload whose content is blank: exactly one emit, the
  \<^verbatim>\<open>error\<close> with the text \<open>empty_content_error\<close> to the sender.
  No payload: the handler throws before it has done anything. In every case with a
  payload the store, the registry and the room are what they were, and nothing goes to
  any connection but the sender.
\<close>

theorem sendMessage_without_session:
  assumes "map_get (connectedUsers sv) sid = None"
  shows "sendMessage e sid messageData sv = sv \<and>
         sendMessage_v1 e sid None sv = Inl TypeError \<and>
         ((\<exists>nd. normalizeData raw = Some nd \<and> trim (sd_content nd) \<noteq> []) \<longrightarrow>
            sendMessage_v1 e sid (Some raw) sv = Inr sv) \<and>
         (normalizeData raw = None \<longrightarrow>
            sendMessage_v1 e sid (Some raw) sv =
              Inr (emit sv [(ToSocket sid, Error ''Contenido del mensaje es requerido'')])) \<and>
         ((\<exists>nd. normalizeData raw = Some nd \<and> trim (sd_content nd) = []) \<longrightarrow>
            sendMessage_v1 e sid (Some raw) sv =
              Inr (emit sv [(ToSocket sid, Error empty_content_error)])) \<and>
         (\<exists>sv'. sendMessage_v1 e sid (Some raw) sv = Inr sv' \<and>
            store sv' = store sv \<and> connectedUsers sv' = connectedUsers sv \<and>
            general sv' = general sv \<and>
            (\<forall>em \<in> set (sent_by sv sv').
               fst em = ToSocket sid \<and> event_name (snd em) = ''error''))"
proof -
  have 1: "sendMessage e sid messageData sv = sv"
    using assms by (rule sendMessage_no_session)
  have 0: "sendMessage_v1 e sid None sv = Inl TypeError"
    by (simp add: sendMessage_v1_def)
  have 2: "sendMessage_v1 e sid (Some raw) sv = Inr sv"
    if "normalizeData raw = Some nd" "trim (sd_content nd) \<noteq> []" for nd
    using that assms by (auto simp: sendMessage_v1_def)
  have 3: "sendMessage_v1 e sid (Some raw) sv =
      Inr (emit sv [(ToSocket sid, Error ''Contenido del mensaje es requerido'')])"
    if "normalizeData raw = None"
    using that by (simp add: sendMessage_v1_def)
  have 4: "sendMessage_v1 e sid (Some raw) sv =
      Inr (emit sv [(ToSocket sid, Error empty_content_error)])"
    if "normalizeData raw = Some nd" "trim (sd_content nd) = []" for nd
    using that by (simp add: sendMessage_v1_def)
  have frame: "\<exists>sv'. sendMessage_v1 e sid (Some raw) sv = Inr sv' \<and>
            store sv' = store sv \<and> connectedUsers sv' = connectedUsers sv \<and>
            general sv' = general sv \<and>
            (\<forall>em \<in> set (sent_by sv sv').
               fst em = ToSocket sid \<and> event_name (snd em) = ''error'')"
  proof (cases "normalizeData raw")
    case None
    from 3 [OF this] show ?thesis by (simp add: emit_def sent_by_def)
  next
    case (Some nd)
    show ?thesis
    proof (cases "trim (sd_content nd) = []")
      case True
      from 4 [OF Some this] show ?thesis by (simp add: emit_def sent_by_def)
    next
      case False
      from 2 [OF Some this] show ?thesis by simp
    qed
  qed
  show ?thesis
    using 0 1 2 3 4 frame by blast
qed

theorem sendMessage_without_session_witness:
  "map_get (connectedUsers server1) ''sA'' = None \<and>
   sendMessage env1 ''sA'' hi_send server1 = server1 \<and>
   sendMessage_v1 env1 ''sA'' None server1 = Inl TypeError \<and>
   normalizeData hi_raw = Some hi_send \<and> trim (sd_content hi_send) \<noteq> [] \<and>
   sendMessage_v1 env1 ''sA'' (Some hi_raw) server1 = Inr server1 \<and>
   normalizeData empty_raw = None \<and>
   sendMessage_v1 env1 ''sA'' (Some empty_raw) server1 =
     Inr (emit server1 [(ToSocket ''sA'', Error ''Contenido del mensaje es requerido'')]) \<and>
   normalizeData blank_raw = Some blank_send \<and> trim (sd_content blank_send) = [] \<and>
   sendMessage_v1 env1 ''sA'' (Some blank_raw) server1 =
     Inr (emit server1 [(ToSocket ''sA'', Error empty_content_error)])"
proof -
  have a: "map_get (connectedUsers server1) ''sA'' = None"
    by (simp add: server1_def map_get_def)
  have b: "normalizeData hi_raw = Some hi_send"
    by (simp add: normalizeData_def hi_raw_def hi_send_def truthy_def)
  have c: "trim (sd_content hi_send) \<noteq> []"
    by (simp add: hi_send_def trim_def is_ws_def)
  have d: "normalizeData empty_raw = None"
    by (simp add: normalizeData_def empty_raw_def truthy_def)
  have f: "normalizeData blank_raw = Some blank_send"
    by (simp add: normalizeData_def blank_raw_def blank_send_def truthy_def)
  have g: "trim (sd_content blank_send) = []"
    by (simp add: blank_send_def trim_def is_ws_def)
  note t = sendMessage_without_session [OF a]
  from t [of env1 hi_send] have 1: "sendMessage env1 ''sA'' hi_send server1 = server1"
    by blast
  from t [of env1] have 2: "sendMessage_v1 env1 ''sA'' None server1 = Inl TypeError"
    by blast
  from t [of env1 _ hi_raw] b c
  have 3: "sendMessage_v1 env1 ''sA'' (Some hi_raw) server1 = Inr server1"
    by blast
  from t [of env1 _ empty_raw] d
  have 4: "sendMessage_v1 env1 ''sA'' (Some empty_raw) server1 =
     Inr (emit server1 [(ToSocket ''sA'', Error ''Contenido del mensaje es requerido'')])"
    by blast
  from t [of env1 _ blank_raw] f g
  have 5: "sendMessage_v1 env1 ''sA'' (Some blank_raw) server1 =
     Inr (emit server1 [(ToSocket ''sA'', Error empty_content_error)])"
    by blast
  show ?thesis using a b c d f g 1 2 3 4 5 by blast
qed

section \<open>C8: disconnecting twice\<close>

lemma disconnect_no_session:
  "map_get (connectedUsers sv) sid = None \<Longrightarrow> disconnect e sid sv = sv"
  by (simp add: disconnect_def)

lemma disconnect_session:
  "map_get (connectedUsers sv) sid = Some su \<Longrightarrow>
   disconnect e sid sv =
     emit (sv\<lparr>store := (case su_user su of
                           None \<Rightarrow> store sv
                         | Some u \<Rightarrow> snd (updateUser e (id_user u) (offline_updates e) (store sv))),
              connectedUsers := map_delete (connectedUsers sv) sid\<rparr>)
       [(ToAll, UserLeft su (map_values (map_delete (connectedUsers sv) sid)))]"
  by (simp add: disconnect_def Let_def)

lemma connectedUsers_disconnect:
  "map_get (connectedUsers (disconnect e sid sv)) sid = None"
  by (cases "map_get (connectedUsers sv) sid")
     (simp_all add: disconnect_no_session disconnect_session emit_def)

lemma spread_offline:
  "spread_user u (offline_updates e) = u\<lparr>isOnline := False, lastSeen := now e\<rparr>"
  by (simp add: spread_user_def offline_updates_def no_updates_def)

lemma updateUser_present:
  "map_get (users s) i = Some u \<Longrightarrow>
   map_get (users (snd (updateUser e i upd s))) i = Some (spread_user u upd)"
  by (simp add: updateUser_def Let_def)

text \<open>
  C8: a second \<^verbatim>\<open>disconnect\<close> on the same connection changes nothing (no emit, no store
  write, no exception path), as handler alone and with Socket.IO's leaving of the room.
  For a connection with a session, the two disconnects together emit exactly one
  \<^verbatim>\<open>userLeft\<close>, to everybody, and leave the store as one \<^verbatim>\<open>updateUser\<close> call with
  \<^verbatim>\<open>isOnline = false\<close> and \<^verbatim>\<open>lastSeen = now\<close> leaves it: the user's record, when the store
  has it, with these two fields set. Without a session the first disconnect is a no-op
  too.
\<close>

theorem disconnect_twice:
  "disconnect e2 sid (disconnect e1 sid sv) = disconnect e1 sid sv \<and>
   step e2 (Disconnect sid) (step e1 (Disconnect sid) sv) = step e1 (Disconnect sid) sv \<and>
   (map_get (connectedUsers sv) sid = None \<longrightarrow> disconnect e1 sid sv = sv) \<and>
   (map_get (connectedUsers sv) sid = Some su \<longrightarrow>
      sent_by sv (disconnect e2 sid (disconnect e1 sid sv)) =
        [(ToAll, UserLeft su (map_values (map_delete (connectedUsers sv) sid)))] \<and>
      (\<forall>u. su_user su = Some u \<longrightarrow>
         store (disconnect e2 sid (disconnect e1 sid sv)) =
           snd (updateUser e1 (id_user u) (offline_updates e1) (store sv)) \<and>
         (\<forall>u0. map_get (users (store sv)) (id_user u) = Some u0 \<longrightarrow>
            map_get (users (store (disconnect e2 sid (disconnect e1 sid sv)))) (id_user u) =
              Some (u0\<lparr>isOnline := False, lastSeen := now e1\<rparr>))))"
proof -
  have twice: "disconnect e2 sid (disconnect e1 sid sv) = disconnect e1 sid sv" for sv
    using connectedUsers_disconnect [of e1 sid sv] by (rule disconnect_no_session)
  have closed: "general (disconnect e sid sv) = general sv" for e sv
    by (simp add: disconnect_def Let_def emit_def split: option.split)
  have "step e2 (Disconnect sid) (step e1 (Disconnect sid) sv) =
      disconnect e2 sid ((disconnect e1 sid (sv\<lparr>general := removeAll sid (general sv)\<rparr>))
        \<lparr>general := removeAll sid (general (disconnect e1 sid (sv\<lparr>general := removeAll sid (general sv)\<rparr>)))\<rparr>)"
    by simp
  also have "general (disconnect e1 sid (sv\<lparr>general := removeAll sid (general sv)\<rparr>))
      = removeAll sid (general sv)"
    by (simp add: closed)
  also have "(disconnect e1 sid (sv\<lparr>general := removeAll sid (general sv)\<rparr>))
        \<lparr>general := removeAll sid (removeAll sid (general sv))\<rparr>
      = disconnect e1 sid (sv\<lparr>general := removeAll sid (general sv)\<rparr>)"
    using closed [of e1 "sv\<lparr>general := removeAll sid (general sv)\<rparr>"] by simp
  finally have steps: "step e2 (Disconnect sid) (step e1 (Disconnect sid) sv) = step e1 (Disconnect sid) sv"
    by (simp add: twice)
  have sent: "sent_by sv (disconnect e1 sid sv) =
        [(ToAll, UserLeft su (map_values (map_delete (connectedUsers sv) sid)))]"
    if "map_get (connectedUsers sv) sid = Some su"
    using that by (simp add: disconnect_session emit_def sent_by_def)
  have upd: "store (disconnect e1 sid sv) =
           snd (updateUser e1 (id_user u) (offline_updates e1) (store sv))"
    if "map_get (connectedUsers sv) sid = Some su" "su_user su = Some u" for u
    using that by (simp add: disconnect_session)
  have rec: "map_get (users (store (disconnect e1 sid sv))) (id_user u) =
              Some (u0\<lparr>isOnline := False, lastSeen := now e1\<rparr>)"
    if "map_get (connectedUsers sv) sid = Some su" "su_user su = Some u"
       "map_get (users (store sv)) (id_user u) = Some u0" for u u0
    using upd [OF that(1,2)] updateUser_present [OF that(3), of e1 "offline_updates e1"]
    by (simp add: spread_offline)
  show ?thesis
    using twice steps sent upd rec disconnect_no_session [of sv sid e1]
    by simp
qed

theorem disconnect_twice_witness:
  "map_get (connectedUsers server1) ''sB'' = Some bob_session \<and>
   disconnect env2 ''sB'' (disconnect env1 ''sB'' server1) = disconnect env1 ''sB'' server1 \<and>
   sent_by server1 (disconnect env2 ''sB'' (disconnect env1 ''sB'' server1)) =
     [(ToAll, UserLeft bob_session (map_values (map_delete (connectedUsers server1) ''sB'')))] \<and>
   su_user bob_session = Some bob \<and>
   map_get (users (store server1)) (id_user bob) = Some bob \<and>
   map_get (users (store (disconnect env2 ''sB'' (disconnect env1 ''sB'' server1)))) (id_user bob) =
     Some (bob\<lparr>isOnline := False, lastSeen := now env1\<rparr>) \<and>
   map_get (connectedUsers server1) ''sA'' = None \<and>
   disconnect env1 ''sA'' server1 = server1"
proof -
  have a: "map_get (connectedUsers server1) ''sB'' = Some bob_session"
    by (simp add: server1_def map_get_def bob_session_def)
  have b: "su_user bob_session = Some bob"
    by (simp add: bob_session_def)
  have c: "map_get (users (store server1)) (id_user bob) = Some bob"
    by (simp add: server1_def store1_def map_get_def bob_def)
  have d: "map_get (connectedUsers server1) ''sA'' = None"
    by (simp add: server1_def map_get_def)
  note t = disconnect_twice [of env2 "''sB''" env1 server1 bob_session]
  from t have 1: "disconnect env2 ''sB'' (disconnect env1 ''sB'' server1) = disconnect env1 ''sB'' server1"
    by blast
  from t a have 2: "sent_by server1 (disconnect env2 ''sB'' (disconnect env1 ''sB'' server1)) =
     [(ToAll, UserLeft bob_session (map_values (map_delete (connectedUsers server1) ''sB'')))]"
    by blast
  from t a b c have 3: "map_get (users (store (disconnect env2 ''sB'' (disconnect env1 ''sB'' server1)))) (id_user bob) =
     Some (bob\<lparr>isOnline := False, lastSeen := now env1\<rparr>)"
    by blast
  from d disconnect_twice [of env2 "''sA''" env1 server1 bob_session]
  have 4: "disconnect env1 ''sA'' server1 = server1"
    by blast
  show ?thesis
    using a b c d 1 2 3 4 by blast
qed

section \<open>C2: the order of the events of a join\<close>

lemma findUserByUsername_stored:
  assumes "users_wf s" "findUserByUsername s name = Some u"
  shows "map_get (users s) (id_user u) = Some u \<and> username u = name"
proof -
  from assms(2) have "u \<in> set (map snd (users s))" and n: "username u = name"
    by (auto simp: findUserByUsername_def map_values_def find_Some_iff)
  then obtain k where k: "(k, u) \<in> set (users s)" by auto
  with assms(1) have "id_user u = k"
    by (auto simp: users_wf_def list_all_iff)
  with k assms(1) have "map_of (users s) (id_user u) = Some u"
    by (simp add: users_wf_def)
  with n show ?thesis by (simp add: map_get_def)
qed

lemma resolve_user_new:
  "findUserByUsername s (ud_username ud) = None \<Longrightarrow>
   resolve_user e ud s = (Some (fst (createUser e ud s)), snd (createUser e ud s))"
  by (simp add: resolve_user_def case_prod_beta)

lemma resolve_user_returning:
  "findUserByUsername s (ud_username ud) = Some found \<Longrightarrow>
   resolve_user e ud s =
     updateUser e (id_user found)
       (no_updates\<lparr>upd_isOnline := Some True, upd_avatar := Some (ud_avatar ud),
                    upd_lastSeen := Some (now e)\<rparr>) s"
  by (simp add: resolve_user_def)

lemma resolve_user_wf:
  assumes "users_wf s"
  shows "\<exists>u. fst (resolve_user e ud s) = Some u"
proof (cases "findUserByUsername s (ud_username ud)")
  case None
  then show ?thesis by (simp add: resolve_user_new)
next
  case (Some found)
  from findUserByUsername_stored [OF assms Some]
  have "map_get (users s) (id_user found) = Some found" by simp
  with Some show ?thesis by (simp add: resolve_user_returning updateUser_def Let_def)
qed

lemma join_resolved:
  assumes "resolve_user e ud (store sv) = (Some u, st1)"
  shows "join e a ud sv =
     emit (sv\<lparr>store := st1,
               connectedUsers := map_set (connectedUsers sv) a \<lparr>su_user = Some u, socketId = a\<rparr>,
               general := socket_join (general sv) a\<rparr>)
       [(ToSocket a, RecentMessages (getRecentMessages st1 (Some 50))),
        (ToSocket a, OnlineUsers (map_values (map_set (connectedUsers sv) a \<lparr>su_user = Some u, socketId = a\<rparr>))),
        (ToSocket a, JoinSuccess \<lparr>su_user = Some u, socketId = a\<rparr>
           (map_values (map_set (connectedUsers sv) a \<lparr>su_user = Some u, socketId = a\<rparr>))
           (getRecentMessages st1 (Some 50))),
        (ToRoomExcept a, UserJoined \<lparr>su_user = Some u, socketId = a\<rparr>
           (map_values (map_set (connectedUsers sv) a \<lparr>su_user = Some u, socketId = a\<rparr>)))]"
  using assms by (simp add: join_def Let_def)

lemma join_unresolved:
  assumes "resolve_user e ud (store sv) = (None, st1)"
  shows "join e a ud sv =
     emit (sv\<lparr>store := st1,
               connectedUsers := map_set (connectedUsers sv) a \<lparr>su_user = None, socketId = a\<rparr>,
               general := socket_join (general sv) a\<rparr>)
       [(ToSocket a, Error ''Error al unirse al chat'')]"
  using assms by (simp add: join_def Let_def)

lemma sent_by_emit_upd:
  "outbox sv1 = outbox sv \<Longrightarrow> sent_by sv (emit sv1 ems) = ems"
  by (simp add: sent_by_def emit_def)

lemma general_emit [simp]: "general (emit sv ems) = general sv"
  by (simp add: emit_def)

lemma connectedUsers_emit [simp]: "connectedUsers (emit sv ems) = connectedUsers sv"
  by (simp add: emit_def)

lemma in_socket_join: "b \<in> set (socket_join room a) \<longleftrightarrow> b = a \<or> b \<in> set room"
  by (auto simp: socket_join_def)

text \<open>
  C2 says this order holds for every join. The version of the handler that notifies
  everybody emits \<^verbatim>\<open>userJoined\<close> with \<^verbatim>\<open>io.emit\<close> first and \<^verbatim>\<open>recentMessages\<close> after: the
  joining connection \<^verbatim>\<open>sA\<close> is sent the notice of its own arrival, before anything else,
  and neither \<^verbatim>\<open>onlineUsers\<close> nor \<^verbatim>\<open>joinSuccess\<close>.
\<close>

theorem join_v2_order_counterexample:
  "''sB'' \<in> set (general server1) \<and>
   map event_name (delivered (general (join_v2 env_c ''sA'' carol_data server1)) ''sA''
      (sent_by server1 (join_v2 env_c ''sA'' carol_data server1))) =
     [''userJoined'', ''recentMessages''] \<and>
   map event_name (delivered (general (join_v2 env_c ''sA'' carol_data server1)) ''sB''
      (sent_by server1 (join_v2 env_c ''sA'' carol_data server1))) =
     [''userJoined'']"
  by code_simp

text \<open>
  C2, amended, for \<^verbatim>\<open>join\<close> of \<^verbatim>\<open>dist/server.js\<close>: the joining connection \<open>a\<close> is never
  sent a \<^verbatim>\<open>userJoined\<close> by its own join; and on a store whose users map is well formed
  the handler emits exactly four events, in this order: \<^verbatim>\<open>recentMessages\<close>, \<^verbatim>\<open>onlineUsers\<close>
  and \<^verbatim>\<open>joinSuccess\<close> to \<open>a\<close>, then \<^verbatim>\<open>userJoined\<close> to the room without \<open>a\<close>. So \<open>a\<close> is sent
  the first three in that order, and a connection \<open>b\<close> already in the room is sent the
  \<^verbatim>\<open>userJoined\<close> alone, emitted after all three.
\<close>

theorem join_emission_order:
  "(\<forall>p \<in> set (delivered (general (join e a ud sv)) a (sent_by sv (join e a ud sv))).
      event_name p \<noteq> ''userJoined'') \<and>
   (users_wf (store sv) \<longrightarrow>
      map fst (sent_by sv (join e a ud sv)) =
        [ToSocket a, ToSocket a, ToSocket a, ToRoomExcept a] \<and>
      map (\<lambda>em. event_name (snd em)) (sent_by sv (join e a ud sv)) =
        [''recentMessages'', ''onlineUsers'', ''joinSuccess'', ''userJoined''] \<and>
      map event_name (delivered (general (join e a ud sv)) a (sent_by sv (join e a ud sv))) =
        [''recentMessages'', ''onlineUsers'', ''joinSuccess''] \<and>
      (b \<in> set (general sv) \<and> b \<noteq> a \<longrightarrow>
         map event_name (delivered (general (join e a ud sv)) b (sent_by sv (join e a ud sv))) =
           [''userJoined'']))"
proof -
  obtain r st1 where r: "resolve_user e ud (store sv) = (r, st1)"
    by (cases "resolve_user e ud (store sv)")
  have never: "\<forall>p \<in> set (delivered (general (join e a ud sv)) a (sent_by sv (join e a ud sv))).
      event_name p \<noteq> ''userJoined''"
  proof (cases r)
    case None
    with r show ?thesis
      by (simp add: join_unresolved sent_by_emit_upd delivered_def)
  next
    case (Some u)
    with r show ?thesis
      by (simp add: join_resolved sent_by_emit_upd delivered_def)
  qed
  have order: "map fst (sent_by sv (join e a ud sv)) =
        [ToSocket a, ToSocket a, ToSocket a, ToRoomExcept a] \<and>
      map (\<lambda>em. event_name (snd em)) (sent_by sv (join e a ud sv)) =
        [''recentMessages'', ''onlineUsers'', ''joinSuccess'', ''userJoined''] \<and>
      map event_name (delivered (general (join e a ud sv)) a (sent_by sv (join e a ud sv))) =
        [''recentMessages'', ''onlineUsers'', ''joinSuccess''] \<and>
      (b \<in> set (general sv) \<and> b \<noteq> a \<longrightarrow>
         map event_name (delivered (general (join e a ud sv)) b (sent_by sv (join e a ud sv))) =
           [''userJoined''])"
    if "users_wf (store sv)"
  proof -
    from resolve_user_wf [OF that, of e ud] r obtain u where "r = Some u" by auto
    with r show ?thesis
      by (simp add: join_resolved sent_by_emit_upd delivered_def in_socket_join)
  qed
  show ?thesis using never order by blast
qed

theorem join_emission_order_witness:
  "users_wf (store server1) \<and> ''sB'' \<in> set (general server1) \<and> ''sB'' \<noteq> ''sA'' \<and>
   map fst (sent_by server1 (join env_c ''sA'' carol_data server1)) =
     [ToSocket ''sA'', ToSocket ''sA'', ToSocket ''sA'', ToRoomExcept ''sA''] \<and>
   map (\<lambda>em. event_name (snd em)) (sent_by server1 (join env_c ''sA'' carol_data server1)) =
     [''recentMessages'', ''onlineUsers'', ''joinSuccess'', ''userJoined''] \<and>
   map event_name (delivered (general (join env_c ''sA'' carol_data server1)) ''sA''
      (sent_by server1 (join env_c ''sA'' carol_data server1))) =
     [''recentMessages'', ''onlineUsers'', ''joinSuccess''] \<and>
   map event_name (delivered (general (join env_c ''sA'' carol_data server1)) ''sB''
      (sent_by server1 (join env_c ''sA'' carol_data server1))) =
     [''userJoined'']"
proof -
  have a: "users_wf (store server1)"
    by (simp add: users_wf_def server1_def store1_def alice_def bob_def)
  have b: "''sB'' \<in> set (general server1)"
    by (simp add: server1_def)
  have c: "''sB'' \<noteq> ''sA''"
    by simp
  note t = join_emission_order [of env_c "''sA''" carol_data server1 "''sB''"]
  from t a have 1: "map fst (sent_by server1 (join env_c ''sA'' carol_data server1)) =
     [ToSocket ''sA'', ToSocket ''sA'', ToSocket ''sA'', ToRoomExcept ''sA'']"
    by blast
  from t a have 2: "map (\<lambda>em. event_name (snd em)) (sent_by server1 (join env_c ''sA'' carol_data server1)) =
     [''recentMessages'', ''onlineUsers'', ''joinSuccess'', ''userJoined'']"
    by blast
  from t a have 3: "map event_name (delivered (general (join env_c ''sA'' carol_data server1)) ''sA''
      (sent_by server1 (join env_c ''sA'' carol_data server1))) =
     [''recentMessages'', ''onlineUsers'', ''joinSuccess'']"
    by blast
  from t a b c have 4: "map event_name (delivered (general (join env_c ''sA'' carol_data server1)) ''sB''
      (sent_by server1 (join env_c ''sA'' carol_data server1))) =
     [''userJoined'']"
    by blast
  show ?thesis using a b c 1 2 3 4 by blast
qed

section \<open>C7: the user records of a join\<close>

lemma owner_find:
  "map_option id_user (List.find (\<lambda>u. username u = name) (map snd m)) = owner (idents m) name"
  by (induction m) (auto simp: owner_def idents_def)

lemma owner_findUserByUsername:
  "map_option id_user (findUserByUsername s name) = owner (idents (users s)) name"
  by (simp add: findUserByUsername_def map_values_def owner_find)

lemma owner_append_Some: "owner xs name = Some i \<Longrightarrow> owner (xs @ ys) name = Some i"
  by (induction xs) (auto simp: owner_def)

lemma owner_append_new: "owner xs name = None \<Longrightarrow> owner (xs @ [(k, i, name)]) name = Some i"
  by (induction xs) (auto simp: owner_def)

lemma users_wf_idents:
  "users_wf s \<longleftrightarrow> distinct (map fst (idents (users s))) \<and>
     list_all (\<lambda>t. fst (snd t) = fst t) (idents (users s))"
  by (auto simp: users_wf_def idents_def list_all_iff comp_def case_prod_beta)

lemma users_wf_cong: "idents (users s') = idents (users s) \<Longrightarrow> users_wf s' = users_wf s"
  by (simp add: users_wf_idents)

lemma idents_map_set:
  "map_get m i = Some u \<Longrightarrow> id_user v = id_user u \<Longrightarrow> username v = username u \<Longrightarrow>
   idents (map_set m i v) = idents m"
  by (induction m) (auto simp: idents_def map_get_def split: if_splits)

lemma idents_updateUser:
  "upd_id upd = None \<Longrightarrow> upd_username upd = None \<Longrightarrow>
   idents (users (snd (updateUser e i upd s))) = idents (users s)"
  by (cases "map_get (users s) i")
     (simp_all add: updateUser_def Let_def idents_map_set spread_user_def)

lemma users_createUser_fresh:
  "map_get (users s) (uuid e) = None \<Longrightarrow>
   users (snd (createUser e ud s)) =
     users s @ [(uuid e, \<lparr>id_user = uuid e, username = ud_username ud, avatar = ud_avatar ud,
                          isOnline = True, lastSeen = now e, createdAt_user = now_again e\<rparr>)]"
  by (simp add: createUser_def Let_def map_set_fresh)

lemma users_wf_createUser:
  assumes "users_wf s" "map_get (users s) (uuid e) = None"
  shows "users_wf (snd (createUser e ud s))"
proof -
  from assms(2) have "uuid e \<notin> fst ` set (users s)"
    by (simp add: map_get_def map_of_eq_None_iff)
  with assms(1) show ?thesis
    by (simp add: users_createUser_fresh [OF assms(2)] users_wf_def)
qed

lemma join_updates_fields:
  "upd_id (no_updates\<lparr>upd_isOnline := Some True, upd_avatar := Some av, upd_lastSeen := Some t\<rparr>) = None \<and>
   upd_username (no_updates\<lparr>upd_isOnline := Some True, upd_avatar := Some av, upd_lastSeen := Some t\<rparr>) = None"
  by (simp add: no_updates_def)

lemma offline_updates_fields:
  "upd_id (offline_updates e) = None \<and> upd_username (offline_updates e) = None"
  by (simp add: offline_updates_def no_updates_def)

lemma resolve_user_grows:
  assumes wf: "users_wf s"
    and fresh: "findUserByUsername s (ud_username ud) = None \<longrightarrow> map_get (users s) (uuid e) = None"
  shows "\<exists>ext. idents (users (snd (resolve_user e ud s))) = idents (users s) @ ext \<and>
               users_wf (snd (resolve_user e ud s))"
proof (cases "findUserByUsername s (ud_username ud)")
  case None
  with fresh have f: "map_get (users s) (uuid e) = None" by simp
  from None have "snd (resolve_user e ud s) = snd (createUser e ud s)"
    by (simp add: resolve_user_new)
  with users_createUser_fresh [OF f, of ud] users_wf_createUser [OF wf f, of ud]
  show ?thesis by (simp add: idents_def)
next
  case (Some found)
  then have r: "snd (resolve_user e ud s) =
      snd (updateUser e (id_user found)
        (no_updates\<lparr>upd_isOnline := Some True, upd_avatar := Some (ud_avatar ud),
                     upd_lastSeen := Some (now e)\<rparr>) s)"
    by (simp add: resolve_user_returning)
  have "idents (users (snd (resolve_user e ud s))) = idents (users s)"
    unfolding r using join_updates_fields by (intro idents_updateUser) simp_all
  with wf users_wf_cong [OF this] show ?thesis by simp
qed

lemma store_join: "store (join e sid ud sv) = snd (resolve_user e ud (store sv))"
  by (cases "resolve_user e ud (store sv)")
     (simp add: join_def Let_def split: option.split)

lemma users_createMessage [simp]: "users (snd (createMessage e md s)) = users s"
  by (cases "map_get (users s) (md_userId md)")
     (simp_all add: createMessage_unknown createMessage_known)

lemma users_sendMessage: "users (store (sendMessage e sid md sv)) = users (store sv)"
proof (cases "map_get (connectedUsers sv) sid")
  case None
  then show ?thesis by (simp add: sendMessage_def)
next
  case (Some su)
  show ?thesis
  proof (cases "su_user su")
    case None
    with Some show ?thesis by (simp add: sendMessage_def)
  next
    case (Some u)
    obtain r st1 where c: "createMessage e (message_spec (sd_content md) (sd_type md) (id_user u) (sd_file md)) (store sv) = (r, st1)"
      by (cases "createMessage e (message_spec (sd_content md) (sd_type md) (id_user u) (sd_file md)) (store sv)")
    then have "users st1 = users (store sv)"
      using users_createMessage [of e "message_spec (sd_content md) (sd_type md) (id_user u) (sd_file md)" "store sv"]
      by simp
    with c Some \<open>map_get (connectedUsers sv) sid = Some su\<close> show ?thesis
      by (simp add: sendMessage_def Let_def split: option.split)
  qed
qed

lemma idents_disconnect:
  "idents (users (store (disconnect e sid sv))) = idents (users (store sv))"
proof (cases "map_get (connectedUsers sv) sid")
  case None
  then show ?thesis by (simp add: disconnect_no_session)
next
  case (Some su)
  then show ?thesis
    using offline_updates_fields [of e]
    by (cases "su_user su") (simp_all add: disconnect_session idents_updateUser)
qed

lemma store_general_update [simp]: "store (sv\<lparr>general := g\<rparr>) = store sv"
  by simp

lemma step_grows:
  assumes wf: "users_wf (store sv)"
    and fresh: "fresh_ids [(e, ev)] sv"
  shows "\<exists>ext. idents (users (store (step e ev sv))) = idents (users (store sv)) @ ext \<and>
               users_wf (store (step e ev sv))"
proof (cases ev)
  case (Join sid ud)
  with fresh have "findUserByUsername (store sv) (ud_username ud) = None \<longrightarrow>
      map_get (users (store sv)) (uuid e) = None"
    by simp
  from resolve_user_grows [OF wf this] Join show ?thesis
    by (simp add: store_join)
next
  case (SendMessage sid md)
  have "idents (users (store (sendMessage e sid md sv))) = idents (users (store sv))"
    by (simp add: users_sendMessage)
  with wf users_wf_cong [OF this] SendMessage show ?thesis by simp
next
  case (Typing sid b)
  with wf show ?thesis by (simp add: typing_def split: option.split)
next
  case (Disconnect sid)
  have i: "idents (users (store (disconnect e sid (sv\<lparr>general := removeAll sid (general sv)\<rparr>)))) =
      idents (users (store sv))"
    using idents_disconnect [of e sid "sv\<lparr>general := removeAll sid (general sv)\<rparr>"] by simp
  with wf users_wf_cong [OF i] Disconnect show ?thesis by simp
next
  case Cleanup
  have "users (cleanup e (store sv)) = users (store sv)"
    by (simp add: cleanup_def Let_def)
  with wf Cleanup show ?thesis by (simp add: users_wf_def)
qed

lemma run_grows:
  "users_wf (store sv) \<Longrightarrow> fresh_ids tr sv \<Longrightarrow>
   \<exists>ext. idents (users (store (run tr sv))) = idents (users (store sv)) @ ext \<and>
         users_wf (store (run tr sv))"
proof (induction tr arbitrary: sv)
  case Nil
  then show ?case by simp
next
  case (Cons x tr)
  obtain e ev where x: "x = (e, ev)" by (cases x)
  from Cons.prems x have f1: "fresh_ids [(e, ev)] sv" and f2: "fresh_ids tr (step e ev sv)"
    by simp_all
  from step_grows [OF Cons.prems(1) f1] obtain ext1 where
    s1: "idents (users (store (step e ev sv))) = idents (users (store sv)) @ ext1"
        "users_wf (store (step e ev sv))"
    by blast
  from Cons.IH [OF s1(2) f2] obtain ext2 where
    s2: "idents (users (store (run tr (step e ev sv)))) = idents (users (store (step e ev sv))) @ ext2"
        "users_wf (store (run tr (step e ev sv)))"
    by blast
  from s1 s2 x show ?case by simp
qed

lemma spread_join:
  "spread_user u (no_updates\<lparr>upd_isOnline := Some True, upd_avatar := Some av, upd_lastSeen := Some t\<rparr>)
     = u\<lparr>isOnline := True, avatar := av, lastSeen := t\<rparr>"
  by (simp add: spread_user_def no_updates_def)

lemma users_updateUser_present:
  "map_get (users s) i = Some u \<Longrightarrow>
   users (snd (updateUser e i upd s)) = map_set (users s) i (spread_user u upd) \<and>
   fst (updateUser e i upd s) = Some (spread_user u upd)"
  by (simp add: updateUser_def Let_def)

lemma connectedUsers_join:
  "map_get (connectedUsers (join e sid ud sv)) sid =
     Some \<lparr>su_user = fst (resolve_user e ud (store sv)), socketId = sid\<rparr>"
  by (cases "resolve_user e ud (store sv)")
     (simp add: join_def Let_def split: option.split)

lemma join_returning:
  assumes wf: "users_wf (store sv)"
    and found: "findUserByUsername (store sv) name = Some u"
  shows "map_get (users (store sv)) (id_user u) = Some u \<and>
         map fst (users (store (join e sid \<lparr>ud_username = name, ud_avatar = av\<rparr> sv))) =
           map fst (users (store sv)) \<and>
         map_get (users (store (join e sid \<lparr>ud_username = name, ud_avatar = av\<rparr> sv))) (id_user u) =
           Some (u\<lparr>isOnline := True, avatar := av, lastSeen := now e\<rparr>) \<and>
         (\<forall>k. k \<noteq> id_user u \<longrightarrow>
            map_get (users (store (join e sid \<lparr>ud_username = name, ud_avatar = av\<rparr> sv))) k =
              map_get (users (store sv)) k) \<and>
         map_get (connectedUsers (join e sid \<lparr>ud_username = name, ud_avatar = av\<rparr> sv)) sid =
           Some \<lparr>su_user = Some (u\<lparr>isOnline := True, avatar := av, lastSeen := now e\<rparr>),
                 socketId = sid\<rparr>"
proof -
  let ?ud = "\<lparr>ud_username = name, ud_avatar = av\<rparr>"
  let ?upd = "no_updates\<lparr>upd_isOnline := Some True, upd_avatar := Some av, upd_lastSeen := Some (now e)\<rparr>"
  from findUserByUsername_stored [OF wf found]
  have st: "map_get (users (store sv)) (id_user u) = Some u" by simp
  from found have r: "resolve_user e ?ud (store sv) = updateUser e (id_user u) ?upd (store sv)"
    using resolve_user_returning [of "store sv" ?ud u e] by simp
  from users_updateUser_present [OF st, of e ?upd]
  have us: "users (snd (resolve_user e ?ud (store sv))) =
        map_set (users (store sv)) (id_user u) (u\<lparr>isOnline := True, avatar := av, lastSeen := now e\<rparr>)"
    and res: "fst (resolve_user e ?ud (store sv)) = Some (u\<lparr>isOnline := True, avatar := av, lastSeen := now e\<rparr>)"
    by (simp_all add: r spread_join)
  show ?thesis
    using st by (simp add: store_join us connectedUsers_join res map_fst_map_set_present [OF st])
qed

text \<open>
  C7: on a well-formed users map, a join with a username no user has, the identifier
  drawn being new, appends exactly one record, with that identifier and username. After
  any run of events of the server that follows (each user created along it drawing a
  new identifier), the username still resolves to a record with that identifier, and a
  further join with this username adds no record: the keys of the users map are the
  same, the record under the identifier is the one it was with \<^verbatim>\<open>isOnline = true\<close>, the
  incoming avatar and \<^verbatim>\<open>lastSeen = now\<close>, every other record is untouched, and the new
  session holds the updated record.
\<close>

theorem join_user_records:
  assumes wf: "users_wf (store sv)"
    and unseen: "findUserByUsername (store sv) name = None"
    and fresh: "map_get (users (store sv)) (uuid e) = None"
    and later: "fresh_ids tr (join e sid \<lparr>ud_username = name, ud_avatar = av\<rparr> sv)"
  shows "let sv1 = join e sid \<lparr>ud_username = name, ud_avatar = av\<rparr> sv;
             sv2 = run tr sv1;
             sv3 = join e' sid' \<lparr>ud_username = name, ud_avatar = av'\<rparr> sv2
         in users (store sv1) =
              users (store sv) @
                [(uuid e, \<lparr>id_user = uuid e, username = name, avatar = av, isOnline = True,
                           lastSeen = now e, createdAt_user = now_again e\<rparr>)] \<and>
            (\<exists>u. findUserByUsername (store sv2) name = Some u \<and>
                 id_user u = uuid e \<and>
                 map_get (users (store sv2)) (uuid e) = Some u \<and>
                 map fst (users (store sv3)) = map fst (users (store sv2)) \<and>
                 map_get (users (store sv3)) (uuid e) =
                   Some (u\<lparr>isOnline := True, avatar := av', lastSeen := now e'\<rparr>) \<and>
                 (\<forall>k. k \<noteq> uuid e \<longrightarrow>
                    map_get (users (store sv3)) k = map_get (users (store sv2)) k) \<and>
                 map_get (connectedUsers sv3) sid' =
                   Some \<lparr>su_user = Some (u\<lparr>isOnline := True, avatar := av', lastSeen := now e'\<rparr>),
                         socketId = sid'\<rparr>)"
proof -
  let ?ud = "\<lparr>ud_username = name, ud_avatar = av\<rparr>"
  define sv1 where "sv1 = join e sid ?ud sv"
  define sv2 where "sv2 = run tr sv1"
  define newu where "newu = \<lparr>id_user = uuid e, username = name, avatar = av, isOnline = True,
                           lastSeen = now e, createdAt_user = now_again e\<rparr>"
  from unseen have "store sv1 = snd (createUser e ?ud (store sv))"
    by (simp add: sv1_def store_join resolve_user_new)
  with users_createUser_fresh [OF fresh, of ?ud]
  have u1: "users (store sv1) = users (store sv) @ [(uuid e, newu)]"
    by (simp add: newu_def)
  have wf1: "users_wf (store sv1)"
    using \<open>store sv1 = snd (createUser e ?ud (store sv))\<close> users_wf_createUser [OF wf fresh, of ?ud]
    by simp
  from unseen have "owner (idents (users (store sv))) name = None"
    using owner_findUserByUsername [of "store sv" name] by simp
  from owner_append_new [OF this, of "uuid e" "uuid e"]
  have o1: "owner (idents (users (store sv1))) name = Some (uuid e)"
    by (simp add: u1 idents_def newu_def)
  from later have "fresh_ids tr sv1" by (simp add: sv1_def)
  from run_grows [OF wf1 this] obtain ext where
    g: "idents (users (store sv2)) = idents (users (store sv1)) @ ext"
    and wf2: "users_wf (store sv2)"
    by (auto simp: sv2_def)
  from owner_append_Some [OF o1, of ext] g
  have "owner (idents (users (store sv2))) name = Some (uuid e)" by simp
  then have "map_option id_user (findUserByUsername (store sv2) name) = Some (uuid e)"
    by (simp add: owner_findUserByUsername)
  then obtain u where u: "findUserByUsername (store sv2) name = Some u" "id_user u = uuid e"
    by auto
  from join_returning [OF wf2 u(1), of e' sid' av'] u
  show ?thesis
    unfolding Let_def sv1_def [symmetric] sv2_def [symmetric]
    using u1 by (auto simp: newu_def)
qed

theorem join_user_records_witness:
  "users_wf (store server1) \<and>
   findUserByUsername (store server1) ''carol'' = None \<and>
   map_get (users (store server1)) (uuid env_c) = None \<and>
   fresh_ids later_events (join env_c ''sA'' \<lparr>ud_username = ''carol'', ud_avatar = ''c.png''\<rparr> server1) \<and>
   (let sv1 = join env_c ''sA'' \<lparr>ud_username = ''carol'', ud_avatar = ''c.png''\<rparr> server1;
        sv2 = run later_events sv1;
        sv3 = join env_d ''sD'' \<lparr>ud_username = ''carol'', ud_avatar = ''d.png''\<rparr> sv2
    in users (store sv1) =
         users (store server1) @
           [(uuid env_c, \<lparr>id_user = uuid env_c, username = ''carol'', avatar = ''c.png'',
                          isOnline = True, lastSeen = now env_c, createdAt_user = now_again env_c\<rparr>)] \<and>
       (\<exists>u. findUserByUsername (store sv2) ''carol'' = Some u \<and>
            id_user u = uuid env_c \<and>
            map_get (users (store sv2)) (uuid env_c) = Some u \<and>
            map fst (users (store sv3)) = map fst (users (store sv2)) \<and>
            map_get (users (store sv3)) (uuid env_c) =
              Some (u\<lparr>isOnline := True, avatar := ''d.png'', lastSeen := now env_d\<rparr>) \<and>
            (\<forall>k. k \<noteq> uuid env_c \<longrightarrow>
               map_get (users (store sv3)) k = map_get (users (store sv2)) k) \<and>
            map_get (connectedUsers sv3) ''sD'' =
              Some \<lparr>su_user = Some (u\<lparr>isOnline := True, avatar := ''d.png'', lastSeen := now env_d\<rparr>),
                    socketId = ''sD''\<rparr>))"
proof -
  have a: "users_wf (store server1)"
    by (simp add: users_wf_def server1_def store1_def alice_def bob_def)
  have b: "findUserByUsername (store server1) ''carol'' = None"
    by (simp add: findUserByUsername_def map_values_def server1_def store1_def alice_def bob_def)
  have c: "map_get (users (store server1)) (uuid env_c) = None"
    by (simp add: map_get_def server1_def store1_def env_c_def)
  have d: "fresh_ids later_events (join env_c ''sA'' \<lparr>ud_username = ''carol'', ud_avatar = ''c.png''\<rparr> server1)"
    by code_simp
  show ?thesis
    using a b c d join_user_records [OF a b c d, of env_d "''sD''" "''d.png''"]
    by blast
qed

end
